theory Spec2Isabelle
  imports Complex_Main
begin

section \<open>Python values\<close>

text \<open>
  The service is written in Python. Its data are JSON documents decoded by the standard
  library, so a value is one of Python's \<open>None\<close>, \<open>bool\<close>, \<open>int\<close>, \<open>float\<close>, \<open>str\<close>,
  \<open>list\<close> and \<open>dict\<close> with string keys. Exceptions are values of \<open>exn\<close>, and a computation
  that may raise returns \<open>exn + 'a\<close> with \<open>Inl\<close> for the exception.
\<close>

datatype exn = KeyError | TypeError | ValueError | OverflowError | AttributeError | ApiError

definition bindE :: "exn + 'a \<Rightarrow> ('a \<Rightarrow> exn + 'b) \<Rightarrow> exn + 'b" where
  "bindE m f = (case m of Inl e \<Rightarrow> Inl e | Inr x \<Rightarrow> f x)"

subsection \<open>Floats\<close>

text \<open>
  A Python \<open>float\<close> is an IEEE binary64 number: \<open>Fin q\<close> is the finite double whose exact
  value is the rational \<open>q\<close>. Every arithmetic result is the exact result rounded to the
  nearest double, ties to the even mantissa (\<open>to_double\<close>). The sign of a zero is not
  tracked (Python compares \<open>-0.0 == 0.0\<close> as equal).
\<close>

datatype pyfloat = Fin rat | PInf | NInf | NaN

definition pow2 :: "int \<Rightarrow> rat" where
  "pow2 k = (if 0 \<le> k then 2 ^ nat k else 1 / 2 ^ nat (- k))"

definition round_half_even :: "rat \<Rightarrow> int" where
  "round_half_even q =
     (let f = \<lfloor>q\<rfloor>; r = q - of_int f
      in if r < 1 / 2 then f else if 1 / 2 < r then f + 1 else if even f then f else f + 1)"

text \<open>
  \<open>bit_length n\<close> is the number of binary digits of a positive \<open>n\<close>, and \<open>ilog2 a\<close> the
  integer \<open>k\<close> with \<open>2^k \<le> a < 2^(k+1)\<close>, for a positive \<open>a\<close>.
\<close>

function bit_length :: "int \<Rightarrow> nat" where
  "bit_length n = (if n \<le> 0 then 0 else Suc (bit_length (n div 2)))"
  by pat_completeness auto
termination
  by (relation "measure nat") auto

declare bit_length.simps [simp del]

definition ilog2 :: "rat \<Rightarrow> int" where
  "ilog2 a =
     (case quotient_of a of (n, d) \<Rightarrow>
        let k = int (bit_length n) - int (bit_length d)
        in if pow2 k \<le> a then k else k - 1)"

text \<open>
  Rounding to binary64: 53 bits of mantissa, the exponent of the unit in the last place
  at least \<open>-1074\<close> (subnormals), overflow to an infinity from \<open>2^1024 - 2^970\<close> on.
\<close>

definition to_double :: "rat \<Rightarrow> pyfloat" where
  "to_double q =
     (if q = 0 then Fin 0
      else let a = \<bar>q\<bar>; k = ilog2 a
           in if 1024 \<le> k then (if 0 < q then PInf else NInf)
              else let e = max k (- 1022);
                       u = pow2 (e - 52);
                       m = round_half_even (a / u)
                   in if e = 1023 \<and> 2 ^ 53 \<le> m then (if 0 < q then PInf else NInf)
                      else Fin (if 0 < q then of_int m * u else - (of_int m * u)))"

fun fneg :: "pyfloat \<Rightarrow> pyfloat" where
  "fneg (Fin q) = Fin (- q)"
| "fneg PInf = NInf"
| "fneg NInf = PInf"
| "fneg NaN = NaN"

fun fadd :: "pyfloat \<Rightarrow> pyfloat \<Rightarrow> pyfloat" where
  "fadd (Fin a) (Fin b) = to_double (a + b)"
| "fadd NaN y = NaN"
| "fadd x NaN = NaN"
| "fadd PInf NInf = NaN"
| "fadd NInf PInf = NaN"
| "fadd PInf y = PInf"
| "fadd NInf y = NInf"
| "fadd x PInf = PInf"
| "fadd x NInf = NInf"

definition fsub :: "pyfloat \<Rightarrow> pyfloat \<Rightarrow> pyfloat" where
  "fsub x y = fadd x (fneg y)"

fun fsign :: "pyfloat \<Rightarrow> int" where
  "fsign (Fin q) = (if 0 < q then 1 else if q < 0 then - 1 else 0)"
| "fsign PInf = 1"
| "fsign NInf = - 1"
| "fsign NaN = 0"

fun fmul :: "pyfloat \<Rightarrow> pyfloat \<Rightarrow> pyfloat" where
  "fmul (Fin a) (Fin b) = to_double (a * b)"
| "fmul NaN y = NaN"
| "fmul x NaN = NaN"
| "fmul x y =
     (let s = fsign x * fsign y
      in if s = 0 then NaN else if 0 < s then PInf else NInf)"

subsection \<open>Numbers\<close>

text \<open>
  The numbers of a decoded JSON document: \<open>int\<close> (unbounded), \<open>float\<close>, and \<open>bool\<close>, which
  Python makes a subclass of \<open>int\<close> (\<open>True\<close> is 1, \<open>False\<close> is 0). An operation on two
  integers is exact. With a float operand the other operand is converted to \<open>float\<close> first,
  which raises \<open>OverflowError\<close> for an integer beyond the range of a double.
\<close>

datatype pynum = PBool bool | PInt int | PFloat pyfloat

fun as_int :: "pynum \<Rightarrow> int option" where
  "as_int (PBool b) = Some (if b then 1 else 0)"
| "as_int (PInt n) = Some n"
| "as_int (PFloat x) = None"

definition int_to_float :: "int \<Rightarrow> exn + pyfloat" where
  "int_to_float n = (case to_double (of_int n) of Fin q \<Rightarrow> Inr (Fin q) | _ \<Rightarrow> Inl OverflowError)"

fun to_float :: "pynum \<Rightarrow> exn + pyfloat" where
  "to_float (PFloat x) = Inr x"
| "to_float (PInt n) = int_to_float n"
| "to_float (PBool b) = int_to_float (if b then 1 else 0)"

definition py_arith ::
  "(int \<Rightarrow> int \<Rightarrow> int) \<Rightarrow> (pyfloat \<Rightarrow> pyfloat \<Rightarrow> pyfloat) \<Rightarrow> pynum \<Rightarrow> pynum \<Rightarrow> exn + pynum" where
  "py_arith iop fop a b =
     (case (as_int a, as_int b) of
        (Some x, Some y) \<Rightarrow> Inr (PInt (iop x y))
      | _ \<Rightarrow> bindE (to_float a) (\<lambda>x. bindE (to_float b) (\<lambda>y. Inr (PFloat (fop x y)))))"

definition py_add :: "pynum \<Rightarrow> pynum \<Rightarrow> exn + pynum" where
  "py_add = py_arith (+) fadd"

definition py_sub :: "pynum \<Rightarrow> pynum \<Rightarrow> exn + pynum" where
  "py_sub = py_arith (-) fsub"

definition py_mul :: "pynum \<Rightarrow> pynum \<Rightarrow> exn + pynum" where
  "py_mul = py_arith (*) fmul"

text \<open>
  \<open>round(x, 2)\<close>: an \<open>int\<close> (or \<open>bool\<close>) is returned as an \<open>int\<close>; a finite float is rounded
  to two decimals on its exact value, ties to even, and the decimal result is converted
  back to the nearest double; infinities and NaN round to themselves.
\<close>

fun py_round2 :: "pynum \<Rightarrow> pynum" where
  "py_round2 (PBool b) = PInt (if b then 1 else 0)"
| "py_round2 (PInt n) = PInt n"
| "py_round2 (PFloat (Fin q)) = PFloat (to_double (of_int (round_half_even (q * 100)) / 100))"
| "py_round2 (PFloat x) = PFloat x"

subsection \<open>JSON documents and strings\<close>

text \<open>
  A decoded JSON document. An object is an association list in the order of its keys; a
  key is looked up with \<open>map_of\<close> (the decoder never produces a key twice).
\<close>

datatype json =
    JNull
  | JBool bool
  | JInt int
  | JFloat pyfloat
  | JStr string
  | JList "json list"
  | JObj "(string \<times> json) list"

fun json_of_num :: "pynum \<Rightarrow> json" where
  "json_of_num (PBool b) = JBool b"
| "json_of_num (PInt n) = JInt n"
| "json_of_num (PFloat x) = JFloat x"

text \<open>\<open>d.get(key, default)\<close> on a dict.\<close>

definition dict_get :: "(string \<times> json) list \<Rightarrow> string \<Rightarrow> json \<Rightarrow> json" where
  "dict_get kvs k d = (case map_of kvs k of Some v \<Rightarrow> v | None \<Rightarrow> d)"

text \<open>Decimal digits, as \<open>str\<close> and an f-string print an \<open>int\<close>.\<close>

definition digit_char :: "nat \<Rightarrow> char" where
  "digit_char d = ''0123456789'' ! d"

fun show_nat :: "nat \<Rightarrow> string" where
  "show_nat n = (if n < 10 then [digit_char n] else show_nat (n div 10) @ [digit_char (n mod 10)])"

declare show_nat.simps [simp del]

definition show_int :: "int \<Rightarrow> string" where
  "show_int i = (if i < 0 then CHR ''-'' # show_nat (nat (- i)) else show_nat (nat i))"

text \<open>
  Python's built-ins on strings. On ASCII text they are defined here, as CPython has
  them. On text that is not ASCII they follow the Unicode database of the interpreter,
  which is not part of the program: there, and for the \<open>repr\<close> of a float, a list or a
  dict, the built-in is a field of the record \<open>builtins\<close>, a parameter of the model.
\<close>

record builtins =
  repr_of :: "json \<Rightarrow> string"
  upper_of :: "string \<Rightarrow> string"
  strip_of :: "string \<Rightarrow> string"
  int_of :: "string \<Rightarrow> exn + int"

definition ascii :: "string \<Rightarrow> bool" where
  "ascii s = list_all (\<lambda>c. (of_char c :: nat) < 128) s"

text \<open>\<open>str.upper\<close>: on ASCII text the letters \<open>a\<close> to \<open>z\<close> are uppercased, nothing else changes.\<close>

definition upper_char :: "char \<Rightarrow> char" where
  "upper_char c =
     (case map_of (zip ''abcdefghijklmnopqrstuvwxyz'' ''ABCDEFGHIJKLMNOPQRSTUVWXYZ'') c of
        Some u \<Rightarrow> u
      | None \<Rightarrow> c)"

definition upper :: "builtins \<Rightarrow> string \<Rightarrow> string" where
  "upper py s = (if ascii s then map upper_char s else upper_of py s)"

text \<open>
  \<open>str.strip\<close>: the ASCII characters that \<open>str.isspace\<close> accepts are tab, line feed,
  vertical tab, form feed, carriage return, the separators 28 to 31, and space.
\<close>

definition is_space :: "char \<Rightarrow> bool" where
  "is_space c =
     (let n = (of_char c :: nat) in (9 \<le> n \<and> n \<le> 13) \<or> (28 \<le> n \<and> n \<le> 32))"

definition strip :: "builtins \<Rightarrow> string \<Rightarrow> string" where
  "strip py s =
     (if ascii s then rev (dropWhile is_space (rev (dropWhile is_space s))) else strip_of py s)"

text \<open>
  \<open>str(x)\<close>: a string is itself, an \<open>int\<close> its decimal digits, \<open>None\<close> and the booleans their
  names; for a float, a list or a dict it is Python's \<open>repr\<close>.
\<close>

fun py_str :: "builtins \<Rightarrow> json \<Rightarrow> string" where
  "py_str py (JStr s) = s"
| "py_str py (JInt n) = show_int n"
| "py_str py (JBool b) = (if b then ''True'' else ''False'')"
| "py_str py JNull = ''None''"
| "py_str py j = repr_of py j"

text \<open>
  \<open>int(x)\<close>: an \<open>int\<close> is itself, a \<open>bool\<close> 0 or 1, a finite float is truncated towards zero
  (an infinity raises \<open>OverflowError\<close>, NaN \<open>ValueError\<close>). \<open>None\<close>, a list and a dict raise
  \<open>TypeError\<close>. An ASCII string is read in base 10: whitespace around it (tab, line feed,
  vertical tab, form feed, carriage return and space only: the separators 28 to 31 are
  not skipped by \<open>int\<close>), an optional sign, then digits, with single underscores allowed
  between digits; more than 4300 digits (the default limit of the interpreter) and any
  other string raise \<open>ValueError\<close>.
\<close>

definition is_int_space :: "char \<Rightarrow> bool" where
  "is_int_space c = (let n = (of_char c :: nat) in (9 \<le> n \<and> n \<le> 13) \<or> n = 32)"

definition is_digit :: "char \<Rightarrow> bool" where
  "is_digit c = (c \<in> set ''0123456789'')"

definition digit_val :: "char \<Rightarrow> int" where
  "digit_val c = int (of_char c) - 48"

fun parse_digits :: "bool \<Rightarrow> string \<Rightarrow> int \<Rightarrow> int option" where
  "parse_digits prev [] acc = (if prev then Some acc else None)"
| "parse_digits prev (c # cs) acc =
     (if is_digit c then parse_digits True cs (10 * acc + digit_val c)
      else if c = CHR ''_'' \<and> prev then parse_digits False cs acc
      else None)"

definition int_of_ascii :: "string \<Rightarrow> exn + int" where
  "int_of_ascii s =
     (let t = rev (dropWhile is_int_space (rev (dropWhile is_int_space s)));
          sign = (case t of c # cs \<Rightarrow> if c = CHR ''-'' then - 1 else 1 | [] \<Rightarrow> 1);
          body = (case t of c # cs \<Rightarrow> if c = CHR ''-'' \<or> c = CHR ''+'' then cs else t | [] \<Rightarrow> [])
      in if 4300 < length (filter is_digit body) then Inl ValueError
         else case parse_digits False body 0 of
                Some n \<Rightarrow> Inr (sign * n)
              | None \<Rightarrow> Inl ValueError)"

definition int_of_str :: "builtins \<Rightarrow> string \<Rightarrow> exn + int" where
  "int_of_str py s = (if ascii s then int_of_ascii s else int_of py s)"

fun py_int :: "builtins \<Rightarrow> json \<Rightarrow> exn + int" where
  "py_int py (JInt n) = Inr n"
| "py_int py (JBool b) = Inr (if b then 1 else 0)"
| "py_int py (JFloat (Fin q)) = Inr (if 0 \<le> q then \<lfloor>q\<rfloor> else - \<lfloor>- q\<rfloor>)"
| "py_int py (JFloat NaN) = Inl ValueError"
| "py_int py (JFloat x) = Inl OverflowError"
| "py_int py (JStr s) = int_of_str py s"
| "py_int py j = Inl TypeError"

section \<open>validators.py: the payload validator\<close>

text \<open>
  The \<open>isinstance\<close> tests of the validator. \<open>bool\<close> is a subclass of \<open>int\<close>, so
  \<open>isinstance(x, (int, float))\<close> and \<open>isinstance(x, (int, str))\<close> hold for \<open>True\<close> and
  \<open>False\<close> as well.
\<close>

fun is_str :: "json \<Rightarrow> bool" where
  "is_str (JStr s) = True"
| "is_str j = False"

fun is_int_or_float :: "json \<Rightarrow> bool" where
  "is_int_or_float (JInt n) = True"
| "is_int_or_float (JFloat x) = True"
| "is_int_or_float (JBool b) = True"
| "is_int_or_float j = False"

fun is_int_or_str :: "json \<Rightarrow> bool" where
  "is_int_or_str (JInt n) = True"
| "is_int_or_str (JStr s) = True"
| "is_int_or_str (JBool b) = True"
| "is_int_or_str j = False"

definition quoted :: "string \<Rightarrow> string" where
  "quoted s = [CHR 0x27] @ s @ [CHR 0x27]"

text \<open>Lines 25 to 43: the loop over \<open>Positions\<close>; the message of the first failure.\<close>

fun check_positions :: "nat \<Rightarrow> json list \<Rightarrow> string option" where
  "check_positions i [] = None"
| "check_positions i (JObj pos # positions) =
     (case map_of pos ''ticker'' of
        None \<Rightarrow> Some (''Position at index '' @ show_nat i @ '' missing '' @ quoted ''ticker'')
      | Some ticker \<Rightarrow>
     (case map_of pos ''quantity'' of
        None \<Rightarrow> Some (''Position at index '' @ show_nat i @ '' missing '' @ quoted ''quantity'')
      | Some quantity \<Rightarrow>
     (case map_of pos ''purchase_price'' of
        None \<Rightarrow> Some (''Position at index '' @ show_nat i @ '' missing '' @ quoted ''purchase_price'')
      | Some purchase_price \<Rightarrow>
          if \<not> is_str ticker
          then Some (''Position at index '' @ show_nat i @ '': '' @ quoted ''ticker''
                     @ '' must be a string'')
          else if \<not> is_int_or_float quantity
          then Some (''Position at index '' @ show_nat i @ '': '' @ quoted ''quantity''
                     @ '' must be a number'')
          else if \<not> is_int_or_float purchase_price
          then Some (''Position at index '' @ show_nat i @ '': '' @ quoted ''purchase_price''
                     @ '' must be a number'')
          else check_positions (i + 1) positions)))"
| "check_positions i (pos # positions) =
     Some (''Position at index '' @ show_nat i @ '' must be an object'')"

text \<open>Lines 56 to 74: the loop over \<open>Market_Summary\<close>.\<close>

fun check_market_summary :: "nat \<Rightarrow> json list \<Rightarrow> string option" where
  "check_market_summary i [] = None"
| "check_market_summary i (JObj item # market_summary) =
     (case map_of item ''ticker'' of
        None \<Rightarrow> Some (''Market_Summary at index '' @ show_nat i @ '' missing '' @ quoted ''ticker'')
      | Some ticker \<Rightarrow>
     (case map_of item ''current_price'' of
        None \<Rightarrow>
          Some (''Market_Summary at index '' @ show_nat i @ '' missing '' @ quoted ''current_price'')
      | Some current_price \<Rightarrow>
     (case map_of item ''category'' of
        None \<Rightarrow> Some (''Market_Summary at index '' @ show_nat i @ '' missing '' @ quoted ''category'')
      | Some category \<Rightarrow>
          if \<not> is_str ticker
          then Some (''Market_Summary at index '' @ show_nat i @ '': '' @ quoted ''ticker''
                     @ '' must be a string'')
          else if \<not> is_int_or_float current_price
          then Some (''Market_Summary at index '' @ show_nat i @ '': '' @ quoted ''current_price''
                     @ '' must be a number'')
          else if \<not> is_str category
          then Some (''Market_Summary at index '' @ show_nat i @ '': '' @ quoted ''category''
                     @ '' must be a string'')
          else check_market_summary (i + 1) market_summary)))"
| "check_market_summary i (item # market_summary) =
     Some (''Market_Summary item at index '' @ show_nat i @ '' must be an object'')"

text \<open>Lines 87 to 106: the loop over \<open>market_history\<close>.\<close>

fun check_market_history :: "nat \<Rightarrow> json list \<Rightarrow> string option" where
  "check_market_history i [] = None"
| "check_market_history i (JObj item # market_history) =
     (case map_of item ''ticker'' of
        None \<Rightarrow> Some (''market_history at index '' @ show_nat i @ '' missing '' @ quoted ''ticker'')
      | Some ticker \<Rightarrow>
     (case map_of item ''price'' of
        None \<Rightarrow> Some (''market_history at index '' @ show_nat i @ '' missing '' @ quoted ''price'')
      | Some price \<Rightarrow>
     (case map_of item ''day'' of
        None \<Rightarrow> Some (''market_history at index '' @ show_nat i @ '' missing '' @ quoted ''day'')
      | Some day \<Rightarrow>
          if \<not> is_str ticker
          then Some (''market_history at index '' @ show_nat i @ '': '' @ quoted ''ticker''
                     @ '' must be a string'')
          else if \<not> is_int_or_float price
          then Some (''market_history at index '' @ show_nat i @ '': '' @ quoted ''price''
                     @ '' must be a number'')
          else if \<not> is_int_or_str day
          then Some (''market_history at index '' @ show_nat i @ '': '' @ quoted ''day''
                     @ '' must be a string or integer'')
          else check_market_history (i + 1) market_history)))"
| "check_market_history i (item # market_history) =
     Some (''market_history item at index '' @ show_nat i @ '' must be an object'')"

text \<open>The four sections of the function body, each giving the message of its first failure.\<close>

definition validate_positions :: "(string \<times> json) list \<Rightarrow> string option" where
  "validate_positions payload =
     (case map_of payload ''Positions'' of
        None \<Rightarrow> Some ''Missing required field: Positions''
      | Some (JList positions) \<Rightarrow>
          if length positions = 0 then Some ''Positions must be a non-empty list''
          else check_positions 0 positions
      | Some _ \<Rightarrow> Some ''Positions must be a list'')"

definition validate_market_summary :: "(string \<times> json) list \<Rightarrow> string option" where
  "validate_market_summary payload =
     (case map_of payload ''Market_Summary'' of
        None \<Rightarrow> Some ''Missing required field: Market_Summary''
      | Some (JList market_summary) \<Rightarrow>
          if length market_summary = 0 then Some ''Market Summary must be a non-empty list''
          else check_market_summary 0 market_summary
      | Some _ \<Rightarrow> Some ''Market_Summary must be a list'')"

definition validate_market_history :: "(string \<times> json) list \<Rightarrow> string option" where
  "validate_market_history payload =
     (case map_of payload ''market_history'' of
        None \<Rightarrow> Some ''Missing required field: market_history''
      | Some (JList market_history) \<Rightarrow>
          if length market_history = 0 then Some ''market_history must be a non-empty list''
          else check_market_history 0 market_history
      | Some _ \<Rightarrow> Some ''market_history must be a list'')"

definition validate_day :: "(string \<times> json) list \<Rightarrow> string option" where
  "validate_day payload =
     (case map_of payload ''DAY'' of
        None \<Rightarrow> None
      | Some day \<Rightarrow>
          if \<not> is_str day
          then Some (''DAY must be a string in '' @ quoted ''yyyy-mm-dd'' @ '' format'')
          else None)"

fun validate_tick_payload :: "json \<Rightarrow> bool \<times> string" where
  "validate_tick_payload (JObj payload) =
     (case validate_positions payload of
        Some message \<Rightarrow> (False, message)
      | None \<Rightarrow>
     (case validate_market_summary payload of
        Some message \<Rightarrow> (False, message)
      | None \<Rightarrow>
     (case validate_market_history payload of
        Some message \<Rightarrow> (False, message)
      | None \<Rightarrow>
     (case validate_day payload of
        Some message \<Rightarrow> (False, message)
      | None \<Rightarrow> (True, '''')))))"
| "validate_tick_payload payload = (False, ''Payload must be a JSON object'')"

section \<open>aitool.py: the recommendation requester\<close>

text \<open>
  The chat-completion call is outside the program. Its outcome is the input of the model:
  either the call raises, or it returns the first choice's message, with its text
  \<open>content\<close> (possibly \<open>None\<close>) and its \<open>tool_calls\<close> (possibly \<open>None\<close>). The argument text
  of a tool call is given by what \<open>json.loads(call.function.arguments or "{}")\<close> makes of
  it: \<open>NoArguments\<close> when the text is \<open>None\<close> or empty, \<open>Malformed\<close> when decoding raises,
  \<open>Parsed j\<close> otherwise.
\<close>

datatype arguments = NoArguments | Malformed | Parsed json

record tool_call =
  call_type :: string
  fn_name :: string
  fn_arguments :: arguments

record llm_message =
  content :: "string option"
  tool_calls :: "tool_call list option"

record recommendation =
  r_action :: string
  r_ticker :: string
  r_quantity :: int

text \<open>Lines 218 to 223: one item of the structured call. \<open>item.get\<close> exists on a dict only.\<close>

fun normalize_item :: "builtins \<Rightarrow> json \<Rightarrow> exn + recommendation" where
  "normalize_item py (JObj item) =
     (let action = upper py (py_str py (dict_get item ''action'' (JStr '''')));
          ticker = strip py (py_str py (dict_get item ''ticker'' (JStr '''')))
      in case py_int py (dict_get item ''quantity'' (JInt 0)) of
           Inl e \<Rightarrow> Inl e
         | Inr qty \<Rightarrow> Inr \<lparr>r_action = action, r_ticker = ticker, r_quantity = qty\<rparr>)"
| "normalize_item py j = Inl AttributeError"

text \<open>Lines 216 to 223: the loop over the items, appending to \<open>normalized\<close>.\<close>

fun normalize_loop ::
  "builtins \<Rightarrow> json list \<Rightarrow> recommendation list \<Rightarrow> exn + recommendation list" where
  "normalize_loop py [] normalized = Inr normalized"
| "normalize_loop py (item # recs) normalized =
     (case normalize_item py item of
        Inl e \<Rightarrow> Inl e
      | Inr r \<Rightarrow> normalize_loop py recs (normalized @ [r]))"

text \<open>
  Lines 212 to 224, the body of the \<open>try\<close>: \<open>Inr (Some normalized)\<close> when the assignment
  \<open>recommendations = normalized\<close> is reached, \<open>Inr None\<close> when \<open>recs\<close> is not a list, \<open>Inl e\<close>
  when something raises (\<open>args.get\<close> exists on a dict only).
\<close>

definition parse_tool_call :: "builtins \<Rightarrow> tool_call \<Rightarrow> exn + recommendation list option" where
  "parse_tool_call py call =
     (case (case fn_arguments call of
              NoArguments \<Rightarrow> Inr (JObj [])
            | Malformed \<Rightarrow> Inl ValueError
            | Parsed j \<Rightarrow> Inr j) of
        Inl e \<Rightarrow> Inl e
      | Inr (JObj args) \<Rightarrow>
          (case dict_get args ''recommendations'' (JList []) of
             JList recs \<Rightarrow>
               (case normalize_loop py recs [] of
                  Inl e \<Rightarrow> Inl e
                | Inr normalized \<Rightarrow> Inr (Some normalized))
           | _ \<Rightarrow> Inr None)
      | Inr _ \<Rightarrow> Inl AttributeError)"

text \<open>
  Lines 209 to 227: the loop over the tool calls. An exception in the \<open>try\<close> is swallowed
  (\<open>except Exception: pass\<close>) and leaves \<open>recommendations\<close> as it was.
\<close>

fun tool_calls_loop ::
  "builtins \<Rightarrow> tool_call list \<Rightarrow> recommendation list \<Rightarrow> recommendation list" where
  "tool_calls_loop py [] recommendations = recommendations"
| "tool_calls_loop py (call # calls) recommendations =
     tool_calls_loop py calls
       (if call_type call = ''function'' \<and> fn_name call = ''set_recommendations''
        then (case parse_tool_call py call of
                Inr (Some normalized) \<Rightarrow> normalized
              | _ \<Rightarrow> recommendations)
        else recommendations)"

definition evaluate_portfolio ::
  "builtins \<Rightarrow> exn + llm_message \<Rightarrow> exn + string \<times> recommendation list" where
  "evaluate_portfolio py response =
     (case response of
        Inl e \<Rightarrow> Inl e
      | Inr message \<Rightarrow>
          Inr (strip py (case content message of Some text \<Rightarrow> text | None \<Rightarrow> ''''),
               (case tool_calls message of
                  Some calls \<Rightarrow> tool_calls_loop py calls []
                | None \<Rightarrow> [])))"

section \<open>business.py: accounting, persistence, forwarding and the tick\<close>

text \<open>
  \<open>analyze_tick\<close> runs on a payload that \<open>validate_tick_payload\<close> has accepted, so the
  payload is a record of its validated parts. \<open>market_history\<close> is only passed on to the
  model and stays a list of documents; \<open>DAY\<close> is optional.
\<close>

record position =
  p_ticker :: string
  p_quantity :: pynum
  p_purchase_price :: pynum

record summary_entry =
  m_ticker :: string
  m_current_price :: pynum
  m_category :: string

record payload =
  Positions :: "position list"
  Market_Summary :: "summary_entry list"
  market_history :: "json list"
  DAY :: "string option"

record snapshot =
  s_ticker :: string
  s_quantity :: pynum
  s_purchase_price :: pynum
  s_current_price :: pynum
  s_unrealized_pnl :: pynum

text \<open>
  The two files. A file is missing, holds something \<open>json.load\<close> cannot decode, or holds a
  document. Errors of the file system itself are not modelled, and neither is what the
  program prints.
\<close>

datatype 'a file_content = Missing | Corrupt | Doc 'a

record files =
  positions_file :: "snapshot list file_content"
  history_file :: "json file_content"

text \<open>
  The dict comprehension \<open>{item['ticker']: item['current_price'] for item in market_summary}\<close>
  (lines 41, 81, 167 and 210): a later entry of a ticker replaces an earlier one.
\<close>

definition price_dict :: "summary_entry list \<Rightarrow> string \<Rightarrow> pynum option" where
  "price_dict market_summary =
     fold (\<lambda>item d. d(m_ticker item \<mapsto> m_current_price item)) market_summary Map.empty"

subsection \<open>save_positions\<close>

fun save_positions_loop ::
  "(string \<Rightarrow> pynum option) \<Rightarrow> position list \<Rightarrow> snapshot list \<Rightarrow> exn + snapshot list" where
  "save_positions_loop market_prices [] positions_data = Inr positions_data"
| "save_positions_loop market_prices (position # positions) positions_data =
     (let ticker = p_ticker position;
          quantity = p_quantity position;
          purchase_price = p_purchase_price position;
          current_price = (case market_prices ticker of Some c \<Rightarrow> c | None \<Rightarrow> purchase_price)
      in case py_sub current_price purchase_price of
           Inl e \<Rightarrow> Inl e
         | Inr d \<Rightarrow>
             (case py_mul d quantity of
                Inl e \<Rightarrow> Inl e
              | Inr unrealized_pnl \<Rightarrow>
                  save_positions_loop market_prices positions
                    (positions_data @
                      [\<lparr>s_ticker = ticker, s_quantity = quantity, s_purchase_price = purchase_price,
                        s_current_price = current_price,
                        s_unrealized_pnl = py_round2 unrealized_pnl\<rparr>])))"

text \<open>The file is opened for writing after the loop: an exception leaves it as it was.\<close>

definition save_positions :: "payload \<Rightarrow> files \<Rightarrow> exn + files" where
  "save_positions payload fs =
     (let positions = Positions payload;
          market_summary = Market_Summary payload;
          market_prices = price_dict market_summary
      in case save_positions_loop market_prices positions [] of
           Inl e \<Rightarrow> Inl e
         | Inr positions_data \<Rightarrow> Inr (fs\<lparr>positions_file := Doc positions_data\<rparr>))"

subsection \<open>log_ai_recommendations\<close>

definition transaction :: "(string \<Rightarrow> pynum option) \<Rightarrow> string \<Rightarrow> recommendation \<Rightarrow> json" where
  "transaction price_lookup date_str r =
     (let ticker = r_ticker r;
          current_price =
            (case price_lookup ticker of Some c \<Rightarrow> json_of_num c | None \<Rightarrow> JFloat (Fin 0))
      in JObj
           ([(''date'', JStr date_str),
             (''ticker'', JStr ticker),
             (''action'', JStr (r_action r)),
             (''price'', current_price),
             (''note'',
              JStr (''AI recommendation: '' @ r_action r @ '' '' @ show_int (r_quantity r) @ '' shares''))]
            @ (if r_quantity r > 0 then [(''quantity'', JInt (r_quantity r))] else [])))"

text \<open>
  Lines 84 to 99. \<open>history\<close> is whatever document the file held; \<open>history.append\<close> exists
  on a list only and raises \<open>AttributeError\<close> on anything else.
\<close>

fun log_loop ::
  "(string \<Rightarrow> pynum option) \<Rightarrow> string \<Rightarrow> recommendation list \<Rightarrow> json \<Rightarrow> exn + json" where
  "log_loop price_lookup date_str [] history = Inr history"
| "log_loop price_lookup date_str (r # recommendations) history =
     (case history of
        JList entries \<Rightarrow>
          log_loop price_lookup date_str recommendations
            (JList (entries @ [transaction price_lookup date_str r]))
      | _ \<Rightarrow> Inl AttributeError)"

definition log_ai_recommendations ::
  "recommendation list \<Rightarrow> string \<Rightarrow> summary_entry list \<Rightarrow> files \<Rightarrow> exn + files" where
  "log_ai_recommendations recommendations date_str market_summary fs =
     (let history = (case history_file fs of Doc h \<Rightarrow> h | _ \<Rightarrow> JList []);
          price_lookup = price_dict market_summary
      in case log_loop price_lookup date_str recommendations history of
           Inl e \<Rightarrow> Inl e
         | Inr history' \<Rightarrow> Inr (fs\<lparr>history_file := Doc history'\<rparr>))"

subsection \<open>make_trade\<close>

text \<open>
  The trade-execution service is outside the program: \<open>service trade_id trades\<close> is the
  outcome of the POST of \<open>{id, trades}\<close>. The request raises, or a response arrives with
  its status and body. The body either makes \<open>response.json()\<close> or \<open>result.get\<close> raise
  (\<open>Undecodable\<close>), or is an object, given by the value of its \<open>Positions\<close> key (\<open>None\<close>
  when the key is absent), which is taken to be a list of well-formed positions, as the
  interface of the service has it.
\<close>

datatype response_body = Undecodable | Body "position list option"

datatype http_result = RequestError | Response nat response_body

definition make_trade ::
  "string option \<Rightarrow> (string \<Rightarrow> recommendation list \<Rightarrow> http_result) \<Rightarrow> string \<Rightarrow> recommendation list
     \<Rightarrow> position list option" where
  "make_trade api_key service trade_id recommendations =
     (if api_key = None \<or> api_key = Some '''' then None
      else let trades = map (\<lambda>r. \<lparr>r_action = r_action r, r_ticker = r_ticker r,
                                  r_quantity = r_quantity r\<rparr>) recommendations
           in case service trade_id trades of
                RequestError \<Rightarrow> None
              | Response status_code body \<Rightarrow>
                  if status_code = 200
                  then (case body of
                          Undecodable \<Rightarrow> None
                        | Body None \<Rightarrow> Some []
                        | Body (Some ps) \<Rightarrow> Some ps)
                  else None)"

subsection \<open>update_positions_from_api\<close>

fun update_positions_loop ::
  "(string \<Rightarrow> pynum option) \<Rightarrow> position list \<Rightarrow> snapshot list \<Rightarrow> exn + snapshot list" where
  "update_positions_loop market_prices [] positions_data = Inr positions_data"
| "update_positions_loop market_prices (position # api_positions) positions_data =
     (let ticker = p_ticker position;
          quantity = p_quantity position;
          purchase_price = p_purchase_price position;
          current_price = (case market_prices ticker of Some c \<Rightarrow> c | None \<Rightarrow> purchase_price)
      in case py_sub current_price purchase_price of
           Inl e \<Rightarrow> Inl e
         | Inr d \<Rightarrow>
             (case py_mul d quantity of
                Inl e \<Rightarrow> Inl e
              | Inr unrealized_pnl \<Rightarrow>
                  update_positions_loop market_prices api_positions
                    (positions_data @
                      [\<lparr>s_ticker = ticker, s_quantity = quantity, s_purchase_price = purchase_price,
                        s_current_price = current_price,
                        s_unrealized_pnl = py_round2 unrealized_pnl\<rparr>])))"

definition update_positions_from_api :: "position list \<Rightarrow> summary_entry list \<Rightarrow> files \<Rightarrow> exn + files" where
  "update_positions_from_api api_positions market_summary fs =
     (let market_prices = price_dict market_summary
      in case update_positions_loop market_prices api_positions [] of
           Inl e \<Rightarrow> Inl e
         | Inr positions_data \<Rightarrow> Inr (fs\<lparr>positions_file := Doc positions_data\<rparr>))"

subsection \<open>analyze_tick\<close>

text \<open>
  What a tick takes from outside the program: the outcome of the chat-completion call,
  Python's built-ins, the \<open>MOTHERSHIP_API_KEY\<close> of the environment, the trade-execution
  service, and today's date as \<open>datetime.now().strftime('%Y-%m-%d')\<close> prints it.
\<close>

record world =
  llm :: "exn + llm_message"
  python :: builtins
  api_key :: "string option"
  service :: "string \<Rightarrow> recommendation list \<Rightarrow> http_result"
  today :: string

record tick_result =
  t_result :: string
  t_positions_evaluated :: nat
  t_unrealized_pnl :: pynum
  t_decisions :: "json list"

text \<open>Lines 216 to 232: the accounting loop with its two accumulators.\<close>

fun accounting_loop ::
  "(string \<Rightarrow> pynum option) \<Rightarrow> position list \<Rightarrow> pynum \<Rightarrow> nat \<Rightarrow> exn + pynum \<times> nat" where
  "accounting_loop current_prices [] total_unrealized_pnl positions_evaluated =
     Inr (total_unrealized_pnl, positions_evaluated)"
| "accounting_loop current_prices (position # positions) total_unrealized_pnl positions_evaluated =
     (let ticker = p_ticker position;
          quantity = p_quantity position;
          purchase_price = p_purchase_price position
      in case current_prices ticker of
           None \<Rightarrow> accounting_loop current_prices positions total_unrealized_pnl positions_evaluated
         | Some current_price \<Rightarrow>
             (case py_sub current_price purchase_price of
                Inl e \<Rightarrow> Inl e
              | Inr d \<Rightarrow>
                  (case py_mul d quantity of
                     Inl e \<Rightarrow> Inl e
                   | Inr position_pnl \<Rightarrow>
                       (case py_add total_unrealized_pnl position_pnl of
                          Inl e \<Rightarrow> Inl e
                        | Inr total_unrealized_pnl' \<Rightarrow>
                            accounting_loop current_prices positions total_unrealized_pnl'
                              (positions_evaluated + 1)))))"

text \<open>
  Lines 206 to 232 with the summary of lines 281 and 282: the accounting step, the number
  of positions evaluated and the rounded total.
\<close>

definition accounting :: "position list \<Rightarrow> summary_entry list \<Rightarrow> exn + nat \<times> pynum" where
  "accounting positions market_summary =
     (let current_prices = price_dict market_summary
      in case accounting_loop current_prices positions (PFloat (Fin 0)) 0 of
           Inl e \<Rightarrow> Inl e
         | Inr (total_unrealized_pnl, positions_evaluated) \<Rightarrow>
             Inr (positions_evaluated, py_round2 total_unrealized_pnl))"

text \<open>Lines 249 to 255: the loop of the \<open>except\<close> branch.\<close>

fun fallback_loop :: "position list \<Rightarrow> recommendation list \<Rightarrow> recommendation list" where
  "fallback_loop [] recommendations = recommendations"
| "fallback_loop (position # positions) recommendations =
     fallback_loop positions
       (if p_ticker position \<noteq> ''CASH''
        then recommendations @ [\<lparr>r_action = ''STAY'', r_ticker = p_ticker position, r_quantity = 0\<rparr>]
        else recommendations)"

text \<open>
  Lines 234 to 255: the recommendations of the tick. \<open>recommendations\<close> is assigned by the
  \<open>try\<close> only when \<open>evaluate_portfolio\<close> returns, and is still empty when the \<open>except\<close>
  branch starts.
\<close>

definition tick_recommendations :: "world \<Rightarrow> payload \<Rightarrow> recommendation list" where
  "tick_recommendations w payload =
     (case evaluate_portfolio (python w) (llm w) of
        Inr (assistant_text, recommendations) \<Rightarrow> recommendations
      | Inl e \<Rightarrow> fallback_loop (Positions payload) [])"

text \<open>
  Lines 257 to 275: logging, forwarding and the positions file. \<open>if updated_positions:\<close> is
  false for \<open>None\<close> and for an empty list.
\<close>

definition persist_tick :: "world \<Rightarrow> payload \<Rightarrow> string \<Rightarrow> recommendation list \<Rightarrow> files \<Rightarrow> (exn + unit) \<times> files" where
  "persist_tick w payload trade_id recommendations fs =
     (let market_summary = Market_Summary payload;
          date_str = (case DAY payload of Some d \<Rightarrow> d | None \<Rightarrow> today w)
      in if recommendations \<noteq> []
         then (case log_ai_recommendations recommendations date_str market_summary fs of
                 Inl e \<Rightarrow> (Inl e, fs)
               | Inr fs1 \<Rightarrow>
                   (case (case make_trade (api_key w) (service w) trade_id recommendations of
                            Some (p # ps) \<Rightarrow> update_positions_from_api (p # ps) market_summary fs1
                          | _ \<Rightarrow> save_positions payload fs1) of
                      Inl e \<Rightarrow> (Inl e, fs1)
                    | Inr fs2 \<Rightarrow> (Inr (), fs2)))
         else (case save_positions payload fs of
                 Inl e \<Rightarrow> (Inl e, fs)
               | Inr fs2 \<Rightarrow> (Inr (), fs2)))"

text \<open>
  The whole function: the result that is returned, or the exception that leaves it, and
  the files afterwards.
\<close>

definition analyze_tick :: "world \<Rightarrow> payload \<Rightarrow> string \<Rightarrow> files \<Rightarrow> (exn + tick_result) \<times> files" where
  "analyze_tick w payload trade_id fs =
     (case accounting (Positions payload) (Market_Summary payload) of
        Inl e \<Rightarrow> (Inl e, fs)
      | Inr (positions_evaluated, unrealized_pnl) \<Rightarrow>
          (case persist_tick w payload trade_id (tick_recommendations w payload) fs of
             (Inl e, fs') \<Rightarrow> (Inl e, fs')
           | (Inr u, fs') \<Rightarrow>
               (Inr \<lparr>t_result = ''success'', t_positions_evaluated = positions_evaluated,
                     t_unrealized_pnl = unrealized_pnl, t_decisions = []\<rparr>, fs')))"

section \<open>Specification-level notions and example inputs\<close>

text \<open>The synthetic recommendation of the fallback: STAY with quantity 0.\<close>

definition stay :: "position \<Rightarrow> recommendation" where
  "stay p = \<lparr>r_action = ''STAY'', r_ticker = p_ticker p, r_quantity = 0\<rparr>"

definition fallback_set :: "position list \<Rightarrow> recommendation list" where
  "fallback_set positions = map stay (filter (\<lambda>p. p_ticker p \<noteq> ''CASH'') positions)"

text \<open>A structured invocation that carries the expected schema name.\<close>

definition is_set_recommendations :: "tool_call \<Rightarrow> bool" where
  "is_set_recommendations call =
     (call_type call = ''function'' \<and> fn_name call = ''set_recommendations'')"

text \<open>
  An invocation is effective when it carries the expected name and its \<open>try\<close> block reaches
  the assignment to \<open>recommendations\<close>.
\<close>

definition effective :: "builtins \<Rightarrow> tool_call \<Rightarrow> bool" where
  "effective py call =
     (is_set_recommendations call \<and>
      (case parse_tool_call py call of Inr (Some normalized) \<Rightarrow> True | _ \<Rightarrow> False))"

text \<open>
  The market-summary entry that matches a ticker. Where a ticker occurs more than once
  the dict comprehension keeps the last entry, so that one is the matching entry.
\<close>

fun matching_entry :: "summary_entry list \<Rightarrow> string \<Rightarrow> summary_entry option" where
  "matching_entry [] t = None"
| "matching_entry (m # ms) t =
     (case matching_entry ms t of
        Some m' \<Rightarrow> Some m'
      | None \<Rightarrow> if m_ticker m = t then Some m else None)"

text \<open>
  Portfolio accounting in the words of the specification: the positions that have a
  matching entry, each paired with it; the profit of such a pair,
  \<open>(current_price - purchase_price) * quantity\<close>; and the total, summed from \<open>0.0\<close> in the
  order of the positions.
\<close>

definition evaluated :: "summary_entry list \<Rightarrow> position list \<Rightarrow> (position \<times> summary_entry) list" where
  "evaluated ms ps = List.map_filter (\<lambda>p. map_option (Pair p) (matching_entry ms (p_ticker p))) ps"

definition pnl :: "position \<times> summary_entry \<Rightarrow> exn + pynum" where
  "pnl pm =
     bindE (py_sub (m_current_price (snd pm)) (p_purchase_price (fst pm)))
       (\<lambda>d. py_mul d (p_quantity (fst pm)))"

fun sum_from :: "pynum \<Rightarrow> (exn + pynum) list \<Rightarrow> exn + pynum" where
  "sum_from total_so_far [] = Inr total_so_far"
| "sum_from total_so_far (x # xs) =
     (case x of
        Inl e \<Rightarrow> Inl e
      | Inr v \<Rightarrow>
          (case py_add total_so_far v of
             Inl e \<Rightarrow> Inl e
           | Inr t \<Rightarrow> sum_from t xs))"

definition spec_accounting :: "position list \<Rightarrow> summary_entry list \<Rightarrow> exn + nat \<times> pynum" where
  "spec_accounting ps ms =
     bindE (sum_from (PFloat (Fin 0)) (map pnl (evaluated ms ps)))
       (\<lambda>t. Inr (length (evaluated ms ps), py_round2 t))"

text \<open>
  The positions snapshot in the words of the specification: per position, the current
  price of the matching entry, or the purchase price when there is none, and the profit
  rounded to two decimals. \<open>collect\<close> gives the values of a list of computations, or the
  first exception.
\<close>

definition derived_price :: "summary_entry list \<Rightarrow> position \<Rightarrow> pynum" where
  "derived_price ms p =
     (case matching_entry ms (p_ticker p) of
        Some m \<Rightarrow> m_current_price m
      | None \<Rightarrow> p_purchase_price p)"

definition derived_entry :: "summary_entry list \<Rightarrow> position \<Rightarrow> exn + snapshot" where
  "derived_entry ms p =
     bindE (py_sub (derived_price ms p) (p_purchase_price p))
       (\<lambda>d. bindE (py_mul d (p_quantity p))
          (\<lambda>unrealized.
             Inr \<lparr>s_ticker = p_ticker p, s_quantity = p_quantity p,
                  s_purchase_price = p_purchase_price p,
                  s_current_price = derived_price ms p,
                  s_unrealized_pnl = py_round2 unrealized\<rparr>))"

fun collect :: "(exn + 'a) list \<Rightarrow> exn + 'a list" where
  "collect [] = Inr []"
| "collect (x # xs) =
     (case x of
        Inl e \<Rightarrow> Inl e
      | Inr v \<Rightarrow> (case collect xs of Inl e \<Rightarrow> Inl e | Inr vs \<Rightarrow> Inr (v # vs)))"

definition derived_snapshot :: "summary_entry list \<Rightarrow> position list \<Rightarrow> exn + snapshot list" where
  "derived_snapshot ms ps = collect (map (derived_entry ms) ps)"

text \<open>
  The history: what \<open>log_ai_recommendations\<close> reads from the file (a missing or
  undecodable file reads as the empty list), whether an entry carries a \<open>quantity\<close> field,
  and a sequence of ticks, each logging its recommendations.
\<close>

definition read_history :: "files \<Rightarrow> json" where
  "read_history fs = (case history_file fs of Doc h \<Rightarrow> h | _ \<Rightarrow> JList [])"

fun has_quantity :: "json \<Rightarrow> bool" where
  "has_quantity (JObj entry) = (map_of entry ''quantity'' \<noteq> None)"
| "has_quantity j = False"

fun log_ticks :: "(recommendation list \<times> string \<times> summary_entry list) list \<Rightarrow> files \<Rightarrow> exn + files" where
  "log_ticks [] fs = Inr fs"
| "log_ticks ((recommendations, date_str, market_summary) # ticks) fs =
     (case log_ai_recommendations recommendations date_str market_summary fs of
        Inl e \<Rightarrow> Inl e
      | Inr fs' \<Rightarrow> log_ticks ticks fs')"

text \<open>
  The shape rules of the payload in the words of the specification. A JSON value is
  numeric when it is a number, and an integer when it is a number without fraction or
  exponent, which the decoder reads as an \<open>int\<close>; \<open>true\<close> and \<open>false\<close> are neither.
\<close>

fun json_string :: "json \<Rightarrow> bool" where
  "json_string (JStr s) = True"
| "json_string j = False"

fun json_number :: "json \<Rightarrow> bool" where
  "json_number (JInt n) = True"
| "json_number (JFloat x) = True"
| "json_number j = False"

fun json_integer_or_string :: "json \<Rightarrow> bool" where
  "json_integer_or_string (JInt n) = True"
| "json_integer_or_string (JStr s) = True"
| "json_integer_or_string j = False"

definition has_field :: "(string \<times> json) list \<Rightarrow> string \<Rightarrow> (json \<Rightarrow> bool) \<Rightarrow> bool" where
  "has_field obj k ok = (case map_of obj k of Some v \<Rightarrow> ok v | None \<Rightarrow> False)"

fun position_rule :: "json \<Rightarrow> bool" where
  "position_rule (JObj obj) =
     (has_field obj ''ticker'' json_string \<and> has_field obj ''quantity'' json_number
      \<and> has_field obj ''purchase_price'' json_number)"
| "position_rule j = False"

fun summary_rule :: "json \<Rightarrow> bool" where
  "summary_rule (JObj obj) =
     (has_field obj ''ticker'' json_string \<and> has_field obj ''current_price'' json_number
      \<and> has_field obj ''category'' json_string)"
| "summary_rule j = False"

fun history_rule :: "json \<Rightarrow> bool" where
  "history_rule (JObj obj) =
     (has_field obj ''ticker'' json_string \<and> has_field obj ''price'' json_number
      \<and> has_field obj ''day'' json_integer_or_string)"
| "history_rule j = False"

definition nonempty_list_of :: "(json \<Rightarrow> bool) \<Rightarrow> json option \<Rightarrow> bool" where
  "nonempty_list_of elem v =
     (case v of Some (JList xs) \<Rightarrow> xs \<noteq> [] \<and> list_all elem xs | _ \<Rightarrow> False)"

fun documented_valid :: "json \<Rightarrow> bool" where
  "documented_valid (JObj payload) =
     (nonempty_list_of position_rule (map_of payload ''Positions'')
      \<and> nonempty_list_of summary_rule (map_of payload ''Market_Summary'')
      \<and> nonempty_list_of history_rule (map_of payload ''market_history'')
      \<and> (case map_of payload ''DAY'' of None \<Rightarrow> True | Some day \<Rightarrow> json_string day))"
| "documented_valid j = False"

text \<open>
  What the validator accepts: the same rules with the \<open>isinstance\<close> tests of the code in
  place of \<open>numeric\<close> and \<open>integer or string\<close>.
\<close>

fun position_accepted :: "json \<Rightarrow> bool" where
  "position_accepted (JObj obj) =
     (has_field obj ''ticker'' is_str \<and> has_field obj ''quantity'' is_int_or_float
      \<and> has_field obj ''purchase_price'' is_int_or_float)"
| "position_accepted j = False"

fun summary_accepted :: "json \<Rightarrow> bool" where
  "summary_accepted (JObj obj) =
     (has_field obj ''ticker'' is_str \<and> has_field obj ''current_price'' is_int_or_float
      \<and> has_field obj ''category'' is_str)"
| "summary_accepted j = False"

fun history_accepted :: "json \<Rightarrow> bool" where
  "history_accepted (JObj obj) =
     (has_field obj ''ticker'' is_str \<and> has_field obj ''price'' is_int_or_float
      \<and> has_field obj ''day'' is_int_or_str)"
| "history_accepted j = False"

fun accepted :: "json \<Rightarrow> bool" where
  "accepted (JObj payload) =
     (nonempty_list_of position_accepted (map_of payload ''Positions'')
      \<and> nonempty_list_of summary_accepted (map_of payload ''Market_Summary'')
      \<and> nonempty_list_of history_accepted (map_of payload ''market_history'')
      \<and> (case map_of payload ''DAY'' of None \<Rightarrow> True | Some day \<Rightarrow> is_str day))"
| "accepted j = False"

text \<open>A payload that is well formed except for the quantity of its position, \<open>true\<close>.\<close>

definition boolean_quantity_payload :: json where
  "boolean_quantity_payload =
     JObj [(''Positions'',
            JList [JObj [(''ticker'', JStr ''AAPL''), (''quantity'', JBool True),
                         (''purchase_price'', JFloat (Fin 180))]]),
           (''Market_Summary'',
            JList [JObj [(''ticker'', JStr ''AAPL''), (''current_price'', JFloat (Fin (365 / 2))),
                         (''category'', JStr ''high'')]]),
           (''market_history'',
            JList [JObj [(''ticker'', JStr ''AAPL''), (''price'', JFloat (Fin 180)),
                         (''day'', JInt 1)]])]"

text \<open>
  Integers within the range of a double: \<open>int_below m x\<close> holds when \<open>x\<close> is not an \<open>int\<close>,
  or is one of magnitude below \<open>2^m\<close>. Positions and a market summary are modest
  when every quantity and price that is an \<open>int\<close> has a magnitude below \<open>2^500\<close>.
\<close>

fun int_below :: "nat \<Rightarrow> pynum \<Rightarrow> bool" where
  "int_below m (PInt n) = (\<bar>n\<bar> < 2 ^ m)"
| "int_below m x = True"

definition modest :: "position list \<Rightarrow> summary_entry list \<Rightarrow> bool" where
  "modest ps ms =
     (list_all (\<lambda>p. int_below 500 (p_quantity p) \<and> int_below 500 (p_purchase_price p)) ps
      \<and> list_all (\<lambda>m. int_below 500 (m_current_price m)) ms)"

text \<open>
  The payload record of a decoded document: the record \<open>analyze_tick\<close> works on, for a
  document with the three lists and fields of the right Python types.
\<close>

fun num_of :: "json \<Rightarrow> pynum option" where
  "num_of (JBool b) = Some (PBool b)"
| "num_of (JInt n) = Some (PInt n)"
| "num_of (JFloat x) = Some (PFloat x)"
| "num_of j = None"

fun str_of :: "json \<Rightarrow> string option" where
  "str_of (JStr s) = Some s"
| "str_of j = None"

definition field :: "(string \<times> json) list \<Rightarrow> string \<Rightarrow> (json \<Rightarrow> 'a option) \<Rightarrow> 'a option" where
  "field obj k decode = (case map_of obj k of Some v \<Rightarrow> decode v | None \<Rightarrow> None)"

fun decode_position :: "json \<Rightarrow> position option" where
  "decode_position (JObj obj) =
     (case (field obj ''ticker'' str_of, field obj ''quantity'' num_of,
            field obj ''purchase_price'' num_of) of
        (Some t, Some q, Some c) \<Rightarrow> Some \<lparr>p_ticker = t, p_quantity = q, p_purchase_price = c\<rparr>
      | _ \<Rightarrow> None)"
| "decode_position j = None"

fun decode_summary :: "json \<Rightarrow> summary_entry option" where
  "decode_summary (JObj obj) =
     (case (field obj ''ticker'' str_of, field obj ''current_price'' num_of,
            field obj ''category'' str_of) of
        (Some t, Some c, Some g) \<Rightarrow> Some \<lparr>m_ticker = t, m_current_price = c, m_category = g\<rparr>
      | _ \<Rightarrow> None)"
| "decode_summary j = None"

fun decode_list :: "(json \<Rightarrow> 'a option) \<Rightarrow> json list \<Rightarrow> 'a list option" where
  "decode_list decode [] = Some []"
| "decode_list decode (j # js) =
     (case (decode j, decode_list decode js) of
        (Some x, Some xs) \<Rightarrow> Some (x # xs)
      | _ \<Rightarrow> None)"

fun decode_payload :: "json \<Rightarrow> payload option" where
  "decode_payload (JObj obj) =
     (case (map_of obj ''Positions'', map_of obj ''Market_Summary'', map_of obj ''market_history'') of
        (Some (JList ps), Some (JList ms), Some (JList mh)) \<Rightarrow>
          (case (decode_list decode_position ps, decode_list decode_summary ms) of
             (Some positions, Some market_summary) \<Rightarrow>
               Some \<lparr>Positions = positions, Market_Summary = market_summary, market_history = mh,
                     DAY = (case map_of obj ''DAY'' of Some (JStr d) \<Rightarrow> Some d | _ \<Rightarrow> None)\<rparr>
           | _ \<Rightarrow> None)
      | _ \<Rightarrow> None)"
| "decode_payload j = None"

text \<open>
  What the specification says of one item of a batch: an item that normalization accepts
  is an object whose \<open>action\<close> and \<open>ticker\<close> are strings and whose \<open>quantity\<close> is accepted
  by \<open>int\<close>; \<open>item_fields\<close> reads these three fields, and \<open>normalization_of\<close> is the
  recommendation the specification gives for them.
\<close>

fun item_fields :: "builtins \<Rightarrow> json \<Rightarrow> (string \<times> string \<times> int) option" where
  "item_fields py (JObj d) =
     (case (map_of d ''action'', map_of d ''ticker'', map_of d ''quantity'') of
        (Some (JStr action), Some (JStr ticker), Some quantity) \<Rightarrow>
          (case py_int py quantity of Inr n \<Rightarrow> Some (action, ticker, n) | Inl e \<Rightarrow> None)
      | _ \<Rightarrow> None)"
| "item_fields py j = None"

definition normalization_of :: "builtins \<Rightarrow> string \<times> string \<times> int \<Rightarrow> recommendation" where
  "normalization_of py f =
     \<lparr>r_action = upper py (fst f), r_ticker = strip py (fst (snd f)), r_quantity = snd (snd f)\<rparr>"

text \<open>Example inputs: built-ins whose parameters are never consulted, calls, items, messages, a payload.\<close>

definition plain :: builtins where
  "plain =
     \<lparr>repr_of = (\<lambda>j. ''''), upper_of = (\<lambda>s. s), strip_of = (\<lambda>s. s),
      int_of = (\<lambda>s. Inl ValueError)\<rparr>"

definition set_recommendations_call :: "json list \<Rightarrow> tool_call" where
  "set_recommendations_call items =
     \<lparr>call_type = ''function'', fn_name = ''set_recommendations'',
      fn_arguments = Parsed (JObj [(''recommendations'', JList items)])\<rparr>"

definition item :: "string \<Rightarrow> string \<Rightarrow> json \<Rightarrow> json" where
  "item action ticker quantity =
     JObj [(''action'', JStr action), (''ticker'', JStr ticker), (''quantity'', quantity)]"

definition message_of :: "tool_call list \<Rightarrow> exn + llm_message" where
  "message_of calls = Inr \<lparr>content = None, tool_calls = Some calls\<rparr>"

definition no_service :: "string \<Rightarrow> recommendation list \<Rightarrow> http_result" where
  "no_service trade_id trades = RequestError"

definition world_of :: "exn + llm_message \<Rightarrow> world" where
  "world_of response =
     \<lparr>llm = response, python = plain, api_key = Some ''key'', service = no_service,
      today = ''2025-01-01''\<rparr>"

definition aapl_cash :: payload where
  "aapl_cash =
     \<lparr>Positions =
        [\<lparr>p_ticker = ''AAPL'', p_quantity = PInt 10, p_purchase_price = PFloat (Fin 180)\<rparr>,
         \<lparr>p_ticker = ''CASH'', p_quantity = PInt 1000, p_purchase_price = PFloat (Fin 1)\<rparr>],
      Market_Summary =
        [\<lparr>m_ticker = ''AAPL'', m_current_price = PFloat (Fin (365 / 2)), m_category = ''high''\<rparr>],
      market_history =
        [JObj [(''ticker'', JStr ''AAPL''), (''price'', JFloat (Fin 180)), (''day'', JInt 1)]],
      DAY = None\<rparr>"

definition quiet_message :: llm_message where
  "quiet_message = \<lparr>content = Some ''hold'', tool_calls = None\<rparr>"

definition empty_files :: files where
  "empty_files = \<lparr>positions_file = Missing, history_file = Missing\<rparr>"

definition stale_files :: files where
  "stale_files =
     \<lparr>positions_file =
        Doc [\<lparr>s_ticker = ''MSFT'', s_quantity = PInt 5, s_purchase_price = PFloat (Fin 410),
              s_current_price = PFloat (Fin 405), s_unrealized_pnl = PFloat (Fin (- 25))\<rparr>],
      history_file = Missing\<rparr>"

definition empty_service :: "string \<Rightarrow> recommendation list \<Rightarrow> http_result" where
  "empty_service trade_id trades = Response 200 (Body None)"

definition aapl_snapshot :: "snapshot list" where
  "aapl_snapshot =
     [\<lparr>s_ticker = ''AAPL'', s_quantity = PInt 10, s_purchase_price = PFloat (Fin 180),
       s_current_price = PFloat (Fin (365 / 2)), s_unrealized_pnl = PFloat (Fin 25)\<rparr>,
      \<lparr>s_ticker = ''CASH'', s_quantity = PInt 1000, s_purchase_price = PFloat (Fin 1),
       s_current_price = PFloat (Fin 1), s_unrealized_pnl = PFloat (Fin 0)\<rparr>]"

definition two_recommendations :: "recommendation list" where
  "two_recommendations =
     [\<lparr>r_action = ''STAY'', r_ticker = ''AAPL'', r_quantity = 0\<rparr>,
      \<lparr>r_action = ''BUY'', r_ticker = ''MSFT'', r_quantity = 3\<rparr>]"

section \<open>The recommendation requester: normalization and the choice of the invocation\<close>

lemma normalize_loop_raises:
  "j \<in> set items \<Longrightarrow> normalize_item py j = Inl e \<Longrightarrow>
   \<exists>e'. normalize_loop py items acc = Inl e'"
  by (induction items arbitrary: acc) (auto split: sum.splits)

lemma tool_calls_loop_append:
  "tool_calls_loop py (xs @ ys) recs = tool_calls_loop py ys (tool_calls_loop py xs recs)"
  by (induction xs arbitrary: recs) simp_all

lemma tool_calls_loop_ineffective:
  "list_all (\<lambda>c. \<not> effective py c) calls \<Longrightarrow> tool_calls_loop py calls recs = recs"
  by (induction calls arbitrary: recs)
     (auto simp: effective_def is_set_recommendations_def split: sum.splits option.splits)

text \<open>
  Claim C4, as stated, fails: in a batch of two items whose second quantity is the string
  \<open>abc\<close>, \<open>int\<close> raises \<open>ValueError\<close> inside the \<open>try\<close>, and the requester returns no
  recommendation at all, not even the first, well-formed item.
\<close>

theorem coercion_failure_discards_batch_counterexample:
  "evaluate_portfolio plain
     (message_of [set_recommendations_call
        [item ''BUY'' ''AAPL'' (JInt 1), item ''SELL'' ''MSFT'' (JStr ''abc'')]])
   = Inr ('''', [])"
  by code_simp

text \<open>
  Claim C4, amended: when the coercion of a field raises for some item of a structured
  invocation, the whole batch of that invocation is discarded: the invocation leaves the
  recommendations as they were before it (empty, when it is the only invocation).
\<close>

theorem coercion_failure_discards_batch:
  assumes "is_set_recommendations call"
    and "fn_arguments call = Parsed (JObj args)"
    and "map_of args ''recommendations'' = Some (JList items)"
    and "j \<in> set items"
    and "normalize_item py j = Inl e"
  shows "tool_calls_loop py (call # calls) recommendations
           = tool_calls_loop py calls recommendations
         \<and> evaluate_portfolio py (message_of [call]) = Inr ('''', [])"
proof -
  obtain e' where "normalize_loop py items [] = Inl e'"
    using normalize_loop_raises [OF assms(4,5)] by blast
  then have "parse_tool_call py call = Inl e'"
    using assms(2,3) by (simp add: parse_tool_call_def dict_get_def)
  then show ?thesis
    by (simp add: evaluate_portfolio_def message_of_def strip_def ascii_def)
qed

theorem coercion_failure_discards_batch_witness:
  "is_set_recommendations
     (set_recommendations_call [item ''BUY'' ''AAPL'' (JInt 1), item ''SELL'' ''MSFT'' (JStr ''abc'')])
   \<and> normalize_item plain (item ''SELL'' ''MSFT'' (JStr ''abc'')) = Inl ValueError
   \<and> tool_calls_loop plain
        [set_recommendations_call [item ''BUY'' ''AAPL'' (JInt 1), item ''SELL'' ''MSFT'' (JStr ''abc'')]]
        [stay \<lparr>p_ticker = ''AAPL'', p_quantity = PInt 1, p_purchase_price = PInt 1\<rparr>]
      = [stay \<lparr>p_ticker = ''AAPL'', p_quantity = PInt 1, p_purchase_price = PInt 1\<rparr>]"
proof -
  let ?bad = "item ''SELL'' ''MSFT'' (JStr ''abc'')"
  let ?items = "[item ''BUY'' ''AAPL'' (JInt 1), ?bad]"
  have a: "is_set_recommendations (set_recommendations_call ?items)"
    by (simp add: is_set_recommendations_def set_recommendations_call_def)
  have b: "fn_arguments (set_recommendations_call ?items)
             = Parsed (JObj [(''recommendations'', JList ?items)])"
    by (simp add: set_recommendations_call_def)
  have c: "map_of [(''recommendations'', JList ?items)] ''recommendations'' = Some (JList ?items)"
    by simp
  have d: "?bad \<in> set ?items"
    by simp
  have e: "normalize_item plain ?bad = Inl ValueError"
    by code_simp
  show ?thesis
    using coercion_failure_discards_batch [OF a b c d e, of "[]"] a e by simp
qed

text \<open>
  Claim C5, as stated, fails: with two invocations of \<open>set_recommendations\<close>, the first
  recommending SELL 5 and the second STAY 0, the requester returns the second one's
  recommendations, because the loop over the tool calls has no \<open>break\<close> and each
  effective invocation overwrites \<open>recommendations\<close>.
\<close>

theorem last_invocation_wins_counterexample:
  "evaluate_portfolio plain
     (message_of [set_recommendations_call [item ''SELL'' ''AAPL'' (JInt 5)],
                  set_recommendations_call [item ''STAY'' ''AAPL'' (JInt 0)]])
   = Inr ('''', [\<lparr>r_action = ''STAY'', r_ticker = ''AAPL'', r_quantity = 0\<rparr>])"
  by code_simp

text \<open>
  Claim C5, amended: when the response contains more than one structured invocation whose
  name matches \<open>set_recommendations\<close>, the requester returns the recommendations parsed
  from the last such invocation that parses (whatever invocations come before it, when no
  effective one comes after it).
\<close>

theorem last_invocation_wins:
  assumes "is_set_recommendations call"
    and "parse_tool_call py call = Inr (Some normalized)"
    and "list_all (\<lambda>c. \<not> effective py c) later"
  shows "evaluate_portfolio py (message_of (earlier @ call # later)) = Inr ('''', normalized)"
  using assms
  by (simp add: evaluate_portfolio_def message_of_def strip_def ascii_def tool_calls_loop_append
      tool_calls_loop_ineffective is_set_recommendations_def)

theorem last_invocation_wins_witness:
  "is_set_recommendations (set_recommendations_call [item ''STAY'' ''AAPL'' (JInt 0)])
   \<and> parse_tool_call plain (set_recommendations_call [item ''STAY'' ''AAPL'' (JInt 0)])
       = Inr (Some [\<lparr>r_action = ''STAY'', r_ticker = ''AAPL'', r_quantity = 0\<rparr>])
   \<and> evaluate_portfolio plain
        (message_of ([set_recommendations_call [item ''SELL'' ''AAPL'' (JInt 5)]]
                     @ set_recommendations_call [item ''STAY'' ''AAPL'' (JInt 0)]
                     # [\<lparr>call_type = ''function'', fn_name = ''other'', fn_arguments = NoArguments\<rparr>]))
       = Inr ('''', [\<lparr>r_action = ''STAY'', r_ticker = ''AAPL'', r_quantity = 0\<rparr>])"
proof -
  let ?call = "set_recommendations_call [item ''STAY'' ''AAPL'' (JInt 0)]"
  let ?other = "\<lparr>call_type = ''function'', fn_name = ''other'', fn_arguments = NoArguments\<rparr>"
  have a: "is_set_recommendations ?call"
    by (simp add: is_set_recommendations_def set_recommendations_call_def)
  have b: "parse_tool_call plain ?call
             = Inr (Some [\<lparr>r_action = ''STAY'', r_ticker = ''AAPL'', r_quantity = 0\<rparr>])"
    by code_simp
  have c: "list_all (\<lambda>c. \<not> effective plain c) [?other]"
    by (simp add: effective_def is_set_recommendations_def)
  show ?thesis
    using last_invocation_wins
            [OF a b c, of "[set_recommendations_call [item ''SELL'' ''AAPL'' (JInt 5)]]"] a b
    by simp
qed

subsection \<open>Normalization of the items\<close>

lemma normalize_item_fields:
  "item_fields py j = Some f \<Longrightarrow> normalize_item py j = Inr (normalization_of py f)"
  by (cases j)
     (auto simp: dict_get_def normalization_of_def split: option.splits json.splits sum.splits)

lemma normalize_loop_fields:
  "list_all2 (\<lambda>j f. item_fields py j = Some f) items fds \<Longrightarrow>
   normalize_loop py items acc = Inr (acc @ map (normalization_of py) fds)"
proof (induction items arbitrary: fds acc)
  case Nil
  then show ?case by simp
next
  case (Cons j items)
  then obtain f fs where f: "fds = f # fs" "item_fields py j = Some f"
      "list_all2 (\<lambda>j f. item_fields py j = Some f) items fs"
    by (auto simp: list_all2_Cons1)
  show ?case
    using Cons.IH [OF f(3)] normalize_item_fields [OF f(2)] f(1)
    by (simp del: normalize_item.simps)
qed

lemma strip_ascii_spec:
  assumes "ascii t"
  shows "\<exists>pre post. t = pre @ strip py t @ post \<and> list_all is_space pre \<and> list_all is_space post
           \<and> (strip py t = [] \<or> \<not> is_space (hd (strip py t)) \<and> \<not> is_space (last (strip py t)))"
proof -
  let ?s = "dropWhile is_space t"
  let ?r = "rev (dropWhile is_space (rev ?s))"
  let ?pre = "takeWhile is_space t"
  let ?post = "rev (takeWhile is_space (rev ?s))"
  have st: "strip py t = ?r" using assms by (simp add: strip_def)
  have "rev ?s = takeWhile is_space (rev ?s) @ dropWhile is_space (rev ?s)" by simp
  then have "rev (rev ?s) = rev (takeWhile is_space (rev ?s) @ dropWhile is_space (rev ?s))"
    by (rule arg_cong)
  then have s: "?s = ?r @ ?post" by (simp only: rev_rev_ident rev_append)
  have t: "t = ?pre @ ?r @ ?post"
    using s takeWhile_dropWhile_id [of is_space t] by metis
  have pre: "list_all is_space ?pre"
    by (simp add: list_all_iff) (meson set_takeWhileD)
  have post: "list_all is_space ?post"
    by (simp add: list_all_iff) (meson set_takeWhileD)
  have ends: "?r = [] \<or> \<not> is_space (hd ?r) \<and> \<not> is_space (last ?r)"
  proof (cases "?r = []")
    case True
    then show ?thesis by simp
  next
    case False
    then have ne: "dropWhile is_space (rev ?s) \<noteq> []" by simp
    have "\<not> is_space (hd (dropWhile is_space (rev ?s)))"
      using ne by (rule hd_dropWhile)
    then have l: "\<not> is_space (last ?r)"
      using ne by (simp add: last_rev)
    have "?s \<noteq> []"
    proof
      assume "?s = []"
      then have "?r = []" by (metis dropWhile.simps(1) rev.simps(1))
      with False show False by simp
    qed
    then have "\<not> is_space (hd ?s)" by (rule hd_dropWhile)
    moreover have "hd ?s = hd ?r" using s False by (metis hd_append2)
    ultimately show ?thesis using l by simp
  qed
  show ?thesis
    unfolding st using t pre post ends by blast
qed

lemma upper_ascii_spec:
  "ascii a \<Longrightarrow> upper py a = map upper_char a"
  by (simp add: upper_def)

lemma digit_char_props:
  "d < 10 \<Longrightarrow> is_digit (digit_char d) \<and> digit_val (digit_char d) = int d
     \<and> \<not> is_int_space (digit_char d) \<and> (of_char (digit_char d) :: nat) < 128
     \<and> digit_char d \<noteq> CHR ''-'' \<and> digit_char d \<noteq> CHR ''+''"
proof -
  assume "d < 10"
  then have "d \<in> {0, 1, 2, 3, 4, 5, 6, 7, 8, 9}" by auto
  then show ?thesis
    by (auto simp: digit_char_def is_digit_def digit_val_def is_int_space_def)
qed

lemma show_nat_digits: "list_all (\<lambda>c. \<exists>d < 10. c = digit_char d) (show_nat n)"
proof (induction n rule: show_nat.induct)
  case (1 n)
  show ?case
  proof (cases "n < 10")
    case True
    then show ?thesis by (subst show_nat.simps) auto
  next
    case False
    have "\<exists>d < 10. digit_char (n mod 10) = digit_char d"
      by (intro exI [of _ "n mod 10"]) simp
    then show ?thesis
      using False "1.IH" by (subst show_nat.simps) simp
  qed
qed

lemma show_nat_nonempty: "show_nat n \<noteq> []"
  by (subst show_nat.simps) simp

lemma parse_digits_show_nat:
  "parse_digits prev (show_nat n @ rest) acc
     = parse_digits True rest (acc * 10 ^ length (show_nat n) + int n)"
proof (induction n arbitrary: prev rest acc rule: show_nat.induct)
  case (1 n)
  show ?case
  proof (cases "n < 10")
    case True
    then have s: "show_nat n = [digit_char n]" by (subst show_nat.simps) simp
    show ?thesis
      using digit_char_props [OF True] by (simp add: s mult.commute)
  next
    case False
    have m: "n mod 10 < 10" by simp
    have s: "show_nat n = show_nat (n div 10) @ [digit_char (n mod 10)]"
      using False by (subst show_nat.simps) simp
    have "parse_digits prev (show_nat n @ rest) acc
            = parse_digits prev (show_nat (n div 10) @ (digit_char (n mod 10) # rest)) acc"
      by (simp add: s)
    also have "\<dots> = parse_digits True (digit_char (n mod 10) # rest)
                        (acc * 10 ^ length (show_nat (n div 10)) + int (n div 10))"
      using False by (rule "1.IH")
    also have "\<dots> = parse_digits True rest
                        (10 * (acc * 10 ^ length (show_nat (n div 10)) + int (n div 10)) + int (n mod 10))"
      using digit_char_props [OF m] by simp
    also have "10 * (acc * 10 ^ length (show_nat (n div 10)) + int (n div 10)) + int (n mod 10)
                 = acc * 10 ^ length (show_nat n) + int n"
    proof -
      have "int n = 10 * int (n div 10) + int (n mod 10)"
        by (metis mult_div_mod_eq of_nat_add of_nat_mult of_nat_numeral)
      then show ?thesis by (simp add: s algebra_simps)
    qed
    finally show ?thesis .
  qed
qed

lemma show_nat_chars:
  assumes "c \<in> set (show_nat n)"
  shows "is_digit c \<and> \<not> is_int_space c \<and> (of_char c :: nat) < 128
         \<and> c \<noteq> CHR ''-'' \<and> c \<noteq> CHR ''+''"
proof -
  obtain d where "d < 10" "c = digit_char d"
    using show_nat_digits [of n] assms by (auto simp: list_all_iff)
  then show ?thesis
    using digit_char_props [of d] by simp
qed

lemma parse_show_nat: "parse_digits False (show_nat n) 0 = Some (int n)"
  using parse_digits_show_nat [of False n "[]" 0] by simp

lemma trim_unchanged:
  assumes "s \<noteq> []" "\<not> P (hd s)" "\<not> P (last s)"
  shows "rev (dropWhile P (rev (dropWhile P s))) = s"
proof -
  have a: "dropWhile P s = s"
    using assms(1,2) by (cases s) simp_all
  have "rev s \<noteq> []" "\<not> P (hd (rev s))"
    using assms(1,3) by (simp_all add: hd_rev)
  then have "dropWhile P (rev s) = rev s"
    by (cases "rev s") simp_all
  then show ?thesis by (simp add: a)
qed

lemma int_of_show_nat:
  assumes "length (show_nat n) \<le> 4300"
  shows "int_of_ascii (show_nat n) = Inr (int n)"
proof -
  let ?s = "show_nat n"
  have ne: "?s \<noteq> []" by (rule show_nat_nonempty)
  then have h: "hd ?s \<in> set ?s" and l: "last ?s \<in> set ?s" by simp_all
  have t: "rev (dropWhile is_int_space (rev (dropWhile is_int_space ?s))) = ?s"
    using ne show_nat_chars [OF h] show_nat_chars [OF l] by (intro trim_unchanged) simp_all
  obtain c cs where cs: "?s = c # cs" using ne by (cases ?s) auto
  then have c: "c \<noteq> CHR ''-''" "c \<noteq> CHR ''+''"
    using show_nat_chars [of c n] by simp_all
  have sign: "(case ?s of c # cs \<Rightarrow> if c = CHR ''-'' then - 1 else 1 | [] \<Rightarrow> 1) = (1::int)"
    using c by (simp add: cs)
  have body: "(case ?s of c # cs \<Rightarrow> if c = CHR ''-'' \<or> c = CHR ''+'' then cs else ?s | [] \<Rightarrow> []) = ?s"
    using c by (simp add: cs)
  have f: "filter is_digit ?s = ?s"
    using show_nat_chars [of _ n] by (simp add: filter_id_conv)
  show ?thesis
    unfolding int_of_ascii_def Let_def t sign body f
    using assms by (simp add: parse_show_nat)
qed

lemma int_of_minus_show_nat:
  assumes "length (show_nat n) \<le> 4300"
  shows "int_of_ascii (CHR ''-'' # show_nat n) = Inr (- int n)"
proof -
  let ?s = "CHR ''-'' # show_nat n"
  have ne: "show_nat n \<noteq> []" by (rule show_nat_nonempty)
  then have l: "last (show_nat n) \<in> set (show_nat n)" by simp
  have "\<not> is_int_space (CHR ''-'')" by (simp add: is_int_space_def)
  moreover have "\<not> is_int_space (last ?s)"
    using ne show_nat_chars [OF l] by simp
  ultimately have t: "rev (dropWhile is_int_space (rev (dropWhile is_int_space ?s))) = ?s"
    by (intro trim_unchanged) simp_all
  have sign: "(case ?s of c # cs \<Rightarrow> if c = CHR ''-'' then - 1 else 1 | [] \<Rightarrow> 1) = (- 1::int)"
    by simp
  have body: "(case ?s of c # cs \<Rightarrow> if c = CHR ''-'' \<or> c = CHR ''+'' then cs else ?s | [] \<Rightarrow> [])
                = show_nat n"
    by simp
  have f: "filter is_digit (show_nat n) = show_nat n"
    using show_nat_chars [of _ n] by (simp add: filter_id_conv)
  show ?thesis
    unfolding int_of_ascii_def Let_def t sign body f
    using assms by (simp add: parse_show_nat)
qed

lemma ascii_show_int: "ascii (show_int n)"
  using show_nat_chars by (auto simp: ascii_def show_int_def list_all_iff)

lemma int_of_show_int:
  assumes "length (show_nat (nat \<bar>n\<bar>)) \<le> 4300"
  shows "py_int py (JStr (show_int n)) = Inr n"
proof (cases "n < 0")
  case True
  then have "nat (- n) = nat \<bar>n\<bar>" by simp
  then show ?thesis
    using True assms int_of_minus_show_nat [of "nat (- n)"] ascii_show_int [of n]
    by (simp add: int_of_str_def show_int_def)
next
  case False
  then have "nat n = nat \<bar>n\<bar>" by simp
  then show ?thesis
    using False assms int_of_show_nat [of "nat n"] ascii_show_int [of n]
    by (simp add: int_of_str_def show_int_def)
qed

lemma int_examples:
  "py_int plain (JStr '' 5 '') = Inr 5"
  "py_int plain (JStr [CHR 0x1C, CHR ''5'']) = Inl ValueError"
  "strip plain [CHR 0x1C, CHR ''5''] = ''5''"
  "py_int plain (JStr ''-1_000'') = Inr (- 1000)"
  "py_int plain (JStr ''1__000'') = Inl ValueError"
  "py_int plain (JStr ''5.0'') = Inl ValueError"
  "py_int plain (JStr '''') = Inl ValueError"
  "py_int plain (JFloat (Fin (- 57 / 10))) = Inr (- 5)"
  by code_simp+

text \<open>
  Claim C6: for every structured invocation whose items all have a string \<open>action\<close>, a
  string \<open>ticker\<close> and a \<open>quantity\<close> that \<open>int\<close> accepts, the requester returns, item by
  item and in order, the action uppercased, the ticker stripped of surrounding whitespace
  and the quantity coerced by \<open>int\<close>. On ASCII text, uppercasing maps every character
  with \<open>upper_char\<close>, and the stripped ticker is the ticker without a prefix and a suffix
  of whitespace, itself neither starting nor ending with whitespace; \<open>int\<close> reads the
  decimal numeral of every \<open>n\<close> (of at most 4300 digits) back as \<open>n\<close> and leaves an
  integer as it is. The item \<open>{"action":"sell","ticker":" AAPL ","quantity":"5"}\<close> comes
  back as \<open>{"action":"SELL","ticker":"AAPL","quantity":5}\<close>.
\<close>

theorem normalization_of_items:
  assumes "list_all2 (\<lambda>j f. item_fields py j = Some f) items fds"
  shows "evaluate_portfolio py (message_of [set_recommendations_call items])
           = Inr ('''', map (normalization_of py) fds)
         \<and> (ascii action \<longrightarrow> upper py action = map upper_char action)
         \<and> (ascii ticker \<longrightarrow>
              (\<exists>pre post. ticker = pre @ strip py ticker @ post
                 \<and> list_all is_space pre \<and> list_all is_space post
                 \<and> (strip py ticker = []
                      \<or> \<not> is_space (hd (strip py ticker)) \<and> \<not> is_space (last (strip py ticker)))))
         \<and> (length (show_nat (nat \<bar>n\<bar>)) \<le> 4300 \<longrightarrow> py_int py (JStr (show_int n)) = Inr n)
         \<and> py_int py (JInt n) = Inr n
         \<and> evaluate_portfolio plain
             (message_of [set_recommendations_call [item ''sell'' '' AAPL '' (JStr ''5'')]])
           = Inr ('''', [\<lparr>r_action = ''SELL'', r_ticker = ''AAPL'', r_quantity = 5\<rparr>])"
proof -
  have "normalize_loop py items [] = Inr (map (normalization_of py) fds)"
    using normalize_loop_fields [OF assms, of "[]"] by simp
  then have batch: "evaluate_portfolio py (message_of [set_recommendations_call items])
           = Inr ('''', map (normalization_of py) fds)"
    by (simp add: evaluate_portfolio_def message_of_def set_recommendations_call_def
        parse_tool_call_def dict_get_def strip_def ascii_def)
  have up: "ascii action \<longrightarrow> upper py action = map upper_char action"
    by (simp add: upper_def)
  have st: "ascii ticker \<longrightarrow>
              (\<exists>pre post. ticker = pre @ strip py ticker @ post
                 \<and> list_all is_space pre \<and> list_all is_space post
                 \<and> (strip py ticker = []
                      \<or> \<not> is_space (hd (strip py ticker)) \<and> \<not> is_space (last (strip py ticker))))"
    using strip_ascii_spec [of ticker py] by blast
  have dec: "length (show_nat (nat \<bar>n\<bar>)) \<le> 4300 \<longrightarrow> py_int py (JStr (show_int n)) = Inr n"
    using int_of_show_int [of n py] by blast
  have example: "evaluate_portfolio plain
             (message_of [set_recommendations_call [item ''sell'' '' AAPL '' (JStr ''5'')]])
           = Inr ('''', [\<lparr>r_action = ''SELL'', r_ticker = ''AAPL'', r_quantity = 5\<rparr>])"
    by code_simp
  show ?thesis
    using batch up st dec example by simp
qed

theorem normalization_of_items_witness:
  "list_all2 (\<lambda>j f. item_fields plain j = Some f)
     [item ''sell'' '' AAPL '' (JStr ''5''), item ''Buy'' ''MSFT'' (JInt 2)]
     [(''sell'', '' AAPL '', 5), (''Buy'', ''MSFT'', 2)]
   \<and> ascii ''sell'' \<and> ascii '' AAPL '' \<and> length (show_nat (nat \<bar>5\<bar>)) \<le> 4300
   \<and> evaluate_portfolio plain
        (message_of [set_recommendations_call
           [item ''sell'' '' AAPL '' (JStr ''5''), item ''Buy'' ''MSFT'' (JInt 2)]])
     = Inr ('''', [\<lparr>r_action = ''SELL'', r_ticker = ''AAPL'', r_quantity = 5\<rparr>,
                  \<lparr>r_action = ''BUY'', r_ticker = ''MSFT'', r_quantity = 2\<rparr>])
   \<and> upper plain ''sell'' = ''SELL'' \<and> strip plain '' AAPL '' = ''AAPL''
   \<and> py_int plain (JStr ''5'') = Inr 5"
proof -
  let ?items = "[item ''sell'' '' AAPL '' (JStr ''5''), item ''Buy'' ''MSFT'' (JInt 2)]"
  let ?fds = "[(''sell'', '' AAPL '', 5 :: int), (''Buy'', ''MSFT'', 2)]"
  have f1: "item_fields plain (item ''sell'' '' AAPL '' (JStr ''5'')) = Some (''sell'', '' AAPL '', 5)"
    by code_simp
  have f2: "item_fields plain (item ''Buy'' ''MSFT'' (JInt 2)) = Some (''Buy'', ''MSFT'', 2)"
    by code_simp
  have fields: "list_all2 (\<lambda>j f. item_fields plain j = Some f) ?items ?fds"
    using f1 f2 by simp
  have norm: "map (normalization_of plain) ?fds
                = [\<lparr>r_action = ''SELL'', r_ticker = ''AAPL'', r_quantity = 5\<rparr>,
                   \<lparr>r_action = ''BUY'', r_ticker = ''MSFT'', r_quantity = 2\<rparr>]"
    by code_simp
  have a: "ascii ''sell''" "ascii '' AAPL ''"
    by code_simp+
  have d: "length (show_nat (nat \<bar>5\<bar>)) \<le> 4300"
    by code_simp
  have u: "upper plain ''sell'' = ''SELL''" "strip plain '' AAPL '' = ''AAPL''"
    by code_simp+
  have "show_int 5 = ''5''"
    by code_simp
  then have q: "py_int plain (JStr ''5'') = Inr 5"
    using normalization_of_items [OF fields, where n = 5] d by simp
  show ?thesis
    using normalization_of_items [OF fields] fields norm a d u q by simp
qed

section \<open>Binary64 rounding\<close>

text \<open>
  The float model on values whose doubles are known: \<open>0.1\<close>, \<open>0.1 + 0.2\<close> (which is
  \<open>0.30000000000000004\<close>), \<open>round(2.675, 2)\<close> (which is \<open>2.67\<close>, the double of \<open>2.675\<close> lying
  below it) and \<open>round(0.125, 2)\<close> (which is \<open>0.12\<close>, the tie going to the even digit).
\<close>

lemma binary64_examples:
  "to_double (1 / 10) = Fin (3602879701896397 / 36028797018963968)"
  "fadd (Fin (3602879701896397 / 36028797018963968)) (Fin (3602879701896397 / 18014398509481984))
     = Fin (1351079888211149 / 4503599627370496)"
  "to_double (2675 / 1000) = Fin (3011782250804019 / 1125899906842624)"
  "py_round2 (PFloat (Fin (3011782250804019 / 1125899906842624)))
     = PFloat (Fin (1503076375634903 / 562949953421312))"
  "to_double (267 / 100) = Fin (1503076375634903 / 562949953421312)"
  "py_round2 (PFloat (Fin (1 / 8))) = PFloat (Fin (1080863910568919 / 9007199254740992))"
  "to_double (12 / 100) = Fin (1080863910568919 / 9007199254740992)"
  "py_round2 (PInt 7) = PInt 7"
  by code_simp+

text \<open>\<open>ilog2\<close> is the binary exponent it is meant to be.\<close>

lemma pow2_diff: "pow2 (int i - int j) = 2 ^ i / 2 ^ j"
proof (cases "j \<le> i")
  case True
  then have "nat (int i - int j) = i - j" by simp
  then show ?thesis using True by (simp add: pow2_def power_diff)
next
  case False
  then have "nat (- (int i - int j)) = j - i" by simp
  moreover have "(2::rat) ^ i / 2 ^ j = 1 / 2 ^ (j - i)"
    using False by (simp add: power_diff field_simps flip: power_add)
  ultimately show ?thesis using False by (simp add: pow2_def)
qed

lemma bit_length_bounds: "0 < n \<Longrightarrow> 2 ^ (bit_length n - 1) \<le> n \<and> n < 2 ^ bit_length n"
proof (induction n rule: bit_length.induct)
  case (1 n)
  show ?case
  proof (cases "n div 2 \<le> 0")
    case True
    then have "n = 1" using "1.prems" by linarith
    then show ?thesis by (simp add: bit_length.simps)
  next
    case False
    then have ih: "2 ^ (bit_length (n div 2) - 1) \<le> n div 2" "n div 2 < 2 ^ bit_length (n div 2)"
      using "1.IH" "1.prems" by simp_all
    have pos: "0 < bit_length (n div 2)"
      using False by (subst bit_length.simps) simp
    have bl: "bit_length n = Suc (bit_length (n div 2))"
      using "1.prems" by (subst bit_length.simps) simp
    have "2 ^ bit_length (n div 2) = (2::int) * 2 ^ (bit_length (n div 2) - 1)"
      using pos by (cases "bit_length (n div 2)") simp_all
    then have "2 ^ bit_length (n div 2) \<le> n"
      using ih(1) by linarith
    moreover have "n < 2 * 2 ^ bit_length (n div 2)"
      using ih(2) by linarith
    ultimately show ?thesis by (simp add: bl)
  qed
qed

lemma bit_length_pos: "0 < n \<Longrightarrow> 0 < bit_length n"
  by (subst bit_length.simps) simp

lemma ilog2_bounds:
  assumes "0 < a"
  shows "pow2 (ilog2 a) \<le> a \<and> a < pow2 (ilog2 a + 1)"
proof -
  obtain n d where q: "quotient_of a = (n, d)" by (cases "quotient_of a")
  have d: "0 < d" using q by (rule quotient_of_denom_pos)
  have a: "a = of_int n / of_int d" using q by (rule quotient_of_div)
  have n: "0 < n"
    using assms d a by (simp add: zero_less_divide_iff)
  let ?i = "bit_length n" and ?j = "bit_length d"
  have i: "0 < ?i" and j: "0 < ?j" using n d by (simp_all add: bit_length_pos)
  have nb: "2 ^ (?i - 1) \<le> n" "n < 2 ^ ?i" using bit_length_bounds [OF n] by simp_all
  have db: "2 ^ (?j - 1) \<le> d" "d < 2 ^ ?j" using bit_length_bounds [OF d] by simp_all
  have nr: "(2::rat) ^ (?i - 1) \<le> of_int n" "(of_int n :: rat) < 2 ^ ?i"
    using nb by (metis of_int_le_iff of_int_numeral of_int_power, metis of_int_less_iff of_int_numeral of_int_power)
  have dr: "(2::rat) ^ (?j - 1) \<le> of_int d" "(of_int d :: rat) \<le> 2 ^ ?j"
    using db by (metis of_int_le_iff of_int_numeral of_int_power, metis less_imp_le of_int_less_iff of_int_numeral of_int_power)
  have upper: "a < pow2 (int ?i - int ?j + 1)"
  proof -
    have "int ?i - int ?j + 1 = int ?i - int (?j - 1)" using j by simp
    then have "pow2 (int ?i - int ?j + 1) = 2 ^ ?i / 2 ^ (?j - 1)"
      by (simp only: pow2_diff)
    moreover have "of_int n / of_int d < (2::rat) ^ ?i / 2 ^ (?j - 1)"
      using nr(2) dr(1) n by (intro frac_less) simp_all
    ultimately show ?thesis using a by simp
  qed
  have lower: "pow2 (int ?i - int ?j - 1) \<le> a"
  proof -
    have "int ?i - int ?j - 1 = int (?i - 1) - int ?j" using i by simp
    then have "pow2 (int ?i - int ?j - 1) = 2 ^ (?i - 1) / 2 ^ ?j"
      by (simp only: pow2_diff)
    moreover have "(2::rat) ^ (?i - 1) / 2 ^ ?j \<le> of_int n / of_int d"
      using nr(1) dr(2) d n by (intro frac_le) simp_all
    ultimately show ?thesis using a by simp
  qed
  show ?thesis
    using upper lower q by (auto simp: ilog2_def Let_def)
qed

section \<open>Arithmetic that does not raise\<close>

text \<open>
  Converting an \<open>int\<close> to \<open>float\<close> raises only beyond the range of a double. With the
  integers of a payload below \<open>2^500\<close> in magnitude, no difference, product or sum of the
  accounting and of the snapshot raises.
\<close>

lemma bit_length_le: "n < 2 ^ m \<Longrightarrow> bit_length n \<le> m"
proof (induction m arbitrary: n)
  case 0
  then show ?case by (subst bit_length.simps) simp
next
  case (Suc m)
  show ?case
  proof (cases "n \<le> 0")
    case True
    then show ?thesis by (subst bit_length.simps) simp
  next
    case False
    have "n div 2 < 2 ^ m"
      using Suc.prems by simp
    then have "bit_length (n div 2) \<le> m"
      by (rule Suc.IH)
    then show ?thesis
      using False by (subst bit_length.simps) simp
  qed
qed

lemma bit_length_one: "bit_length 1 = 1"
  by (simp add: bit_length.simps)

lemma ilog2_of_int_le:
  assumes "n < 2 ^ m"
  shows "ilog2 (of_int n) \<le> int m - 1"
proof -
  have "int (bit_length n) \<le> int m"
    using bit_length_le [OF assms] by simp
  then show ?thesis
    by (simp add: ilog2_def Let_def bit_length_one)
qed

lemma to_double_of_int_finite:
  assumes "\<bar>n\<bar> < 2 ^ 1023"
  shows "\<exists>q. to_double (of_int n) = Fin q"
proof (cases "n = 0")
  case True
  then show ?thesis by (simp add: to_double_def)
next
  case False
  have abs: "\<bar>(of_int n :: rat)\<bar> = of_int \<bar>n\<bar>"
    by simp
  have "ilog2 (of_int \<bar>n\<bar>) \<le> int 1023 - 1"
    using assms by (rule ilog2_of_int_le)
  then have k: "ilog2 \<bar>(of_int n :: rat)\<bar> \<le> 1022"
    by (simp add: abs del: of_int_abs)
  then have "max (ilog2 \<bar>(of_int n :: rat)\<bar>) (- 1022) \<noteq> 1023" "\<not> 1024 \<le> ilog2 \<bar>(of_int n :: rat)\<bar>"
    by simp_all
  then show ?thesis
    using False by (simp add: to_double_def Let_def del: of_int_abs)
qed

lemma int_to_float_finite: "\<bar>n\<bar> < 2 ^ 1023 \<Longrightarrow> \<exists>x. int_to_float n = Inr x"
  using to_double_of_int_finite [of n] by (auto simp: int_to_float_def)

lemma as_int_below: "as_int a = Some x \<Longrightarrow> int_below m a \<Longrightarrow> 0 < m \<Longrightarrow> \<bar>x\<bar> < 2 ^ m"
proof (cases a)
  case (PBool b)
  assume "as_int a = Some x" "0 < m"
  then have "\<bar>x\<bar> \<le> 1" using PBool by (auto split: if_splits)
  moreover have "(1::int) < 2 ^ m" using \<open>0 < m\<close> by simp
  ultimately show ?thesis by linarith
qed auto

lemma int_below_mono: "int_below m a \<Longrightarrow> m \<le> m' \<Longrightarrow> int_below m' a"
proof (cases a)
  case (PInt n)
  assume "int_below m a" "m \<le> m'"
  then have "\<bar>n\<bar> < 2 ^ m" using PInt by simp
  also have "(2::int) ^ m \<le> 2 ^ m'" using \<open>m \<le> m'\<close> by (simp add: power_increasing)
  finally show ?thesis using PInt by simp
qed auto

lemma to_float_ok: "int_below 1023 a \<Longrightarrow> \<exists>x. to_float a = Inr x"
proof (cases a)
  case (PBool b)
  have "\<bar>(if b then 1 else 0 :: int)\<bar> < 2 ^ 1023" by simp
  then show ?thesis using PBool int_to_float_finite by simp
next
  case (PInt n)
  assume "int_below 1023 a"
  then show ?thesis using PInt int_to_float_finite by simp
next
  case (PFloat x)
  then show ?thesis by simp
qed

lemma py_arith_float:
  assumes "int_below 1023 a" "int_below 1023 b" "as_int a = None \<or> as_int b = None"
  shows "\<exists>r. py_arith iop fop a b = Inr (PFloat r)"
proof -
  obtain x y where "to_float a = Inr x" "to_float b = Inr y"
    using assms(1,2) to_float_ok by blast
  then show ?thesis
    using assms(3) by (auto simp: py_arith_def bindE_def split: option.splits)
qed

lemma py_sub_ok:
  assumes "int_below 500 a" "int_below 500 b"
  shows "\<exists>r. py_sub a b = Inr r \<and> int_below 501 r"
proof (cases "as_int a = None \<or> as_int b = None")
  case True
  have "int_below 1023 a" "int_below 1023 b"
    using assms by (auto intro: int_below_mono)
  then obtain r where "py_arith (-) fsub a b = Inr (PFloat r)"
    using py_arith_float True by blast
  then show ?thesis by (simp add: py_sub_def)
next
  case False
  then obtain x y where xy: "as_int a = Some x" "as_int b = Some y" by auto
  have "\<bar>x\<bar> < 2 ^ 500" "\<bar>y\<bar> < 2 ^ 500"
    using as_int_below [OF xy(1) assms(1)] as_int_below [OF xy(2) assms(2)] by simp_all
  then have "\<bar>x - y\<bar> < 2 ^ 501" by simp
  then show ?thesis using xy by (simp add: py_sub_def py_arith_def)
qed

lemma py_mul_ok:
  assumes "int_below 501 a" "int_below 500 b"
  shows "\<exists>r. py_mul a b = Inr r \<and> int_below 1001 r"
proof (cases "as_int a = None \<or> as_int b = None")
  case True
  have "int_below 1023 a" "int_below 1023 b"
    using assms by (auto intro: int_below_mono)
  then obtain r where "py_arith (*) fmul a b = Inr (PFloat r)"
    using py_arith_float True by blast
  then show ?thesis by (simp add: py_mul_def)
next
  case False
  then obtain x y where xy: "as_int a = Some x" "as_int b = Some y" by auto
  have "\<bar>x\<bar> < 2 ^ 501" "\<bar>y\<bar> < 2 ^ 500"
    using as_int_below [OF xy(1) assms(1)] as_int_below [OF xy(2) assms(2)] by simp_all
  then have "\<bar>x\<bar> * \<bar>y\<bar> < 2 ^ 501 * 2 ^ 500"
    by (intro mult_strict_mono) simp_all
  then have "\<bar>x * y\<bar> < 2 ^ 1001"
    by (simp add: abs_mult power_add [symmetric])
  then show ?thesis using xy by (simp add: py_mul_def py_arith_def)
qed

lemma py_add_float_ok:
  assumes "int_below 1001 b"
  shows "\<exists>r. py_add (PFloat t) b = Inr (PFloat r)"
proof -
  have "int_below 1023 (PFloat t)" "int_below 1023 b"
    using assms by (auto intro: int_below_mono)
  then show ?thesis
    unfolding py_add_def by (rule py_arith_float) simp
qed

section \<open>Portfolio accounting\<close>

lemma bindE_simps [simp]: "bindE (Inl e) f = Inl e" "bindE (Inr x) f = f x"
  by (simp_all add: bindE_def)

lemma price_dict_fold:
  "fold (\<lambda>item d. d(m_ticker item \<mapsto> m_current_price item)) ms d0 t
     = (case matching_entry ms t of Some m \<Rightarrow> Some (m_current_price m) | None \<Rightarrow> d0 t)"
  by (induction ms arbitrary: d0) (auto split: option.splits)

lemma price_dict_matching:
  "price_dict ms t = map_option m_current_price (matching_entry ms t)"
  by (simp add: price_dict_def price_dict_fold split: option.splits)

lemma matching_entry_None_iff: "matching_entry ms t = None \<longleftrightarrow> t \<notin> m_ticker ` set ms"
  by (induction ms) (auto split: option.splits)

lemma evaluated_positions:
  "map fst (evaluated ms ps) = filter (\<lambda>p. matching_entry ms (p_ticker p) \<noteq> None) ps"
  by (induction ps) (auto simp: evaluated_def)

lemma evaluated_unmatched:
  "matching_entry ms (p_ticker p) = None \<Longrightarrow> evaluated ms (xs @ p # ys) = evaluated ms (xs @ ys)"
  by (simp add: evaluated_def map_filter_def)

lemma accounting_loop_spec:
  "accounting_loop (price_dict ms) ps total_pnl n
     = bindE (sum_from total_pnl (map pnl (evaluated ms ps)))
         (\<lambda>t. Inr (t, n + length (evaluated ms ps)))"
proof (induction ps arbitrary: total_pnl n)
  case Nil
  then show ?case by (simp add: evaluated_def)
next
  case (Cons p ps)
  show ?case
  proof (cases "matching_entry ms (p_ticker p)")
    case None
    then show ?thesis
      using Cons.IH by (simp add: evaluated_def price_dict_matching)
  next
    case (Some m)
    then show ?thesis
      using Cons.IH
      by (simp add: evaluated_def price_dict_matching pnl_def Let_def split: sum.splits)
  qed
qed

lemma accounting_spec: "accounting ps ms = spec_accounting ps ms"
  by (cases "sum_from (PFloat (Fin 0)) (map pnl (evaluated ms ps))")
     (simp_all add: accounting_def spec_accounting_def accounting_loop_spec)

lemma matching_entry_mem: "matching_entry ms t = Some m \<Longrightarrow> m \<in> set ms"
  by (induction ms) (auto split: option.splits if_splits)

lemma pnl_ok:
  assumes "int_below 500 (m_current_price m)"
    and "int_below 500 (p_quantity p)" "int_below 500 (p_purchase_price p)"
  shows "\<exists>v. pnl (p, m) = Inr v \<and> int_below 1001 v"
proof -
  obtain d where d: "py_sub (m_current_price m) (p_purchase_price p) = Inr d" "int_below 501 d"
    using py_sub_ok [OF assms(1,3)] by blast
  obtain u where "py_mul d (p_quantity p) = Inr u" "int_below 1001 u"
    using py_mul_ok [OF d(2) assms(2)] by blast
  then show ?thesis
    using d(1) by (simp add: pnl_def)
qed

lemma sum_from_ok:
  "list_all (\<lambda>x. \<exists>v. x = Inr v \<and> int_below 1001 v) xs \<Longrightarrow>
   \<exists>r. sum_from (PFloat t) xs = Inr r"
proof (induction xs arbitrary: t)
  case Nil
  then show ?case by simp
next
  case (Cons x xs)
  then obtain v where v: "x = Inr v" "int_below 1001 v" by auto
  obtain r where "py_add (PFloat t) v = Inr (PFloat r)"
    using py_add_float_ok [OF v(2)] by blast
  then show ?case
    using Cons v(1) by simp
qed

lemma evaluated_mem:
  "(p, m) \<in> set (evaluated ms ps) \<Longrightarrow> p \<in> set ps \<and> m \<in> set ms"
  by (induction ps) (auto simp: evaluated_def split: option.splits dest: matching_entry_mem)

lemma accounting_ok:
  assumes "list_all (\<lambda>m. int_below 500 (m_current_price m)) ms"
    and "list_all (\<lambda>p. int_below 500 (p_quantity p) \<and> int_below 500 (p_purchase_price p)) ps"
  shows "\<exists>r. accounting ps ms = Inr r"
proof -
  have "list_all (\<lambda>x. \<exists>v. x = Inr v \<and> int_below 1001 v) (map pnl (evaluated ms ps))"
    unfolding list_all_iff
  proof
    fix x assume "x \<in> set (map pnl (evaluated ms ps))"
    then obtain p m where pm: "(p, m) \<in> set (evaluated ms ps)" "x = pnl (p, m)" by auto
    then have "p \<in> set ps" "m \<in> set ms" using evaluated_mem by blast+
    then show "\<exists>v. x = Inr v \<and> int_below 1001 v"
      using assms pm(2) pnl_ok [of m p] by (auto simp: list_all_iff)
  qed
  then obtain t where "sum_from (PFloat (Fin 0)) (map pnl (evaluated ms ps)) = Inr t"
    using sum_from_ok by blast
  then show ?thesis
    by (simp add: accounting_spec spec_accounting_def)
qed

lemma aapl_cash_modest: "modest (Positions aapl_cash) (Market_Summary aapl_cash)"
  by (simp add: modest_def aapl_cash_def)

lemma stale_files_readable: "read_history stale_files = JList []"
  by (simp add: read_history_def stale_files_def)

lemma accounting_modest: "modest ps ms \<Longrightarrow> \<exists>r. accounting ps ms = Inr r"
  unfolding modest_def using accounting_ok [of ms ps] by blast

text \<open>
  Claim C3: for every positions list and market summary, the accounting step is the
  accounting of the specification: it sums \<open>(current_price - purchase_price) * quantity\<close>
  over exactly the positions whose ticker has a matching market-summary entry, in their
  order, counts those positions, and reports the total rounded to two decimals (or raises
  the \<open>OverflowError\<close> that one of these operations raises; none does when the integers of
  the input are below \<open>2^500\<close> in magnitude). A position without a matching entry changes
  neither accumulator, wherever it stands in the list. Positions
  \<open>[{AAPL, 10, 180.0}]\<close> with summary \<open>[{AAPL, 182.5}]\<close> give \<open>unrealized_pnl = 25.0\<close> and
  \<open>positions_evaluated = 1\<close>; and \<open>CASH\<close> is not special: with a summary entry it is
  evaluated like any other ticker.
\<close>

theorem accounting_sums_matching_positions:
  "accounting ps ms = spec_accounting ps ms
   \<and> map fst (evaluated ms ps) = filter (\<lambda>p. p_ticker p \<in> m_ticker ` set ms) ps
   \<and> (p_ticker p \<notin> m_ticker ` set ms \<longrightarrow>
        accounting (before @ p # after) ms = accounting (before @ after) ms)
   \<and> (modest ps ms \<longrightarrow> (\<exists>n t. accounting ps ms = Inr (n, t)))
   \<and> accounting
        [\<lparr>p_ticker = ''AAPL'', p_quantity = PInt 10, p_purchase_price = PFloat (Fin 180)\<rparr>]
        [\<lparr>m_ticker = ''AAPL'', m_current_price = PFloat (Fin (365 / 2)), m_category = ''high''\<rparr>]
       = Inr (1, PFloat (Fin 25))
   \<and> accounting
        [\<lparr>p_ticker = ''CASH'', p_quantity = PInt 1000, p_purchase_price = PFloat (Fin 1)\<rparr>]
        [\<lparr>m_ticker = ''CASH'', m_current_price = PFloat (Fin (3 / 2)), m_category = ''low''\<rparr>]
       = Inr (1, PFloat (Fin 500))"
proof -
  have total: "modest ps ms \<longrightarrow> (\<exists>n t. accounting ps ms = Inr (n, t))"
    using accounting_modest [of ps ms] by auto
  have a: "accounting ps ms = spec_accounting ps ms"
    by (rule accounting_spec)
  have b: "map fst (evaluated ms ps) = filter (\<lambda>p. p_ticker p \<in> m_ticker ` set ms) ps"
    by (simp add: evaluated_positions matching_entry_None_iff)
  have c: "p_ticker p \<notin> m_ticker ` set ms \<longrightarrow>
        accounting (before @ p # after) ms = accounting (before @ after) ms"
    by (simp add: accounting_spec spec_accounting_def evaluated_unmatched matching_entry_None_iff)
  have d: "accounting
        [\<lparr>p_ticker = ''AAPL'', p_quantity = PInt 10, p_purchase_price = PFloat (Fin 180)\<rparr>]
        [\<lparr>m_ticker = ''AAPL'', m_current_price = PFloat (Fin (365 / 2)), m_category = ''high''\<rparr>]
       = Inr (1, PFloat (Fin 25))"
    by code_simp
  have e: "accounting
        [\<lparr>p_ticker = ''CASH'', p_quantity = PInt 1000, p_purchase_price = PFloat (Fin 1)\<rparr>]
        [\<lparr>m_ticker = ''CASH'', m_current_price = PFloat (Fin (3 / 2)), m_category = ''low''\<rparr>]
       = Inr (1, PFloat (Fin 500))"
    by code_simp
  show ?thesis
    using a b c total d e by blast
qed

theorem accounting_sums_matching_positions_witness:
  "''CASH'' \<notin> m_ticker ` set (Market_Summary aapl_cash)
   \<and> modest (Positions aapl_cash) (Market_Summary aapl_cash)
   \<and> accounting (Positions aapl_cash) (Market_Summary aapl_cash) = Inr (1, PFloat (Fin 25))"
proof -
  let ?aapl = "\<lparr>p_ticker = ''AAPL'', p_quantity = PInt 10, p_purchase_price = PFloat (Fin 180)\<rparr>"
  let ?cash = "\<lparr>p_ticker = ''CASH'', p_quantity = PInt 1000, p_purchase_price = PFloat (Fin 1)\<rparr>"
  let ?ms = "[\<lparr>m_ticker = ''AAPL'', m_current_price = PFloat (Fin (365 / 2)), m_category = ''high''\<rparr>]"
  have unmatched: "p_ticker ?cash \<notin> m_ticker ` set ?ms"
    by simp
  have "accounting ([?aapl] @ ?cash # []) ?ms = accounting ([?aapl] @ []) ?ms"
    using accounting_sums_matching_positions
            [where p = ?cash and ms = ?ms and before = "[?aapl]" and after = "[]"] unmatched
    by blast
  moreover have "accounting [?aapl] ?ms = Inr (1, PFloat (Fin 25))"
    by code_simp
  ultimately show ?thesis
    using aapl_cash_modest by (simp add: aapl_cash_def)
qed

section \<open>The positions snapshot\<close>

lemma loops_equal: "update_positions_loop mp ps acc = save_positions_loop mp ps acc"
  by (induction ps arbitrary: acc) (simp_all add: Let_def split: sum.splits)

lemma save_positions_loop_spec:
  "save_positions_loop (price_dict ms) ps acc
     = bindE (derived_snapshot ms ps) (\<lambda>d. Inr (acc @ d))"
proof (induction ps arbitrary: acc)
  case Nil
  then show ?case by (simp add: derived_snapshot_def)
next
  case (Cons p ps)
  have price: "(case price_dict ms (p_ticker p) of Some c \<Rightarrow> c | None \<Rightarrow> p_purchase_price p)
                 = derived_price ms p"
    by (simp add: derived_price_def price_dict_matching split: option.splits)
  show ?case
    using Cons.IH
    by (simp add: Let_def price derived_snapshot_def derived_entry_def split: sum.splits)
qed

lemma save_positions_spec:
  "save_positions payload fs
     = bindE (derived_snapshot (Market_Summary payload) (Positions payload))
         (\<lambda>d. Inr (fs\<lparr>positions_file := Doc d\<rparr>))"
  by (cases "derived_snapshot (Market_Summary payload) (Positions payload)")
     (simp_all add: save_positions_def save_positions_loop_spec)

lemma derived_entry_fields:
  "derived_entry ms p = Inr s \<Longrightarrow>
     s_ticker s = p_ticker p \<and> s_quantity s = p_quantity p
     \<and> s_purchase_price s = p_purchase_price p \<and> s_current_price s = derived_price ms p"
  by (auto simp: derived_entry_def bindE_def split: sum.splits)

lemma collect_map_fields:
  "collect (map (derived_entry ms) ps) = Inr d \<Longrightarrow>
     map s_ticker d = map p_ticker ps \<and> map s_current_price d = map (derived_price ms) ps"
proof (induction ps arbitrary: d)
  case Nil
  then show ?case by simp
next
  case (Cons p ps)
  then show ?case
    by (auto split: sum.splits dest: derived_entry_fields)
qed

lemma derived_snapshot_fields:
  "derived_snapshot ms ps = Inr d \<Longrightarrow>
     map s_ticker d = map p_ticker ps \<and> map s_current_price d = map (derived_price ms) ps"
  unfolding derived_snapshot_def by (rule collect_map_fields)

lemma derived_price_below:
  assumes "list_all (\<lambda>m. int_below 500 (m_current_price m)) ms"
    and "int_below 500 (p_purchase_price p)"
  shows "int_below 500 (derived_price ms p)"
  using assms
  by (auto simp: derived_price_def list_all_iff split: option.splits dest: matching_entry_mem)

lemma derived_entry_ok:
  assumes "list_all (\<lambda>m. int_below 500 (m_current_price m)) ms"
    and "int_below 500 (p_quantity p)" "int_below 500 (p_purchase_price p)"
  shows "\<exists>s. derived_entry ms p = Inr s"
proof -
  obtain d where d: "py_sub (derived_price ms p) (p_purchase_price p) = Inr d" "int_below 501 d"
    using py_sub_ok [OF derived_price_below [OF assms(1,3)] assms(3)] by blast
  obtain u where "py_mul d (p_quantity p) = Inr u"
    using py_mul_ok [OF d(2) assms(2)] by blast
  then show ?thesis
    using d(1) by (simp add: derived_entry_def)
qed

lemma derived_snapshot_ok:
  assumes "list_all (\<lambda>m. int_below 500 (m_current_price m)) ms"
    and "list_all (\<lambda>p. int_below 500 (p_quantity p) \<and> int_below 500 (p_purchase_price p)) ps"
  shows "\<exists>d. derived_snapshot ms ps = Inr d"
  using assms(2)
proof (induction ps)
  case Nil
  then show ?case by (simp add: derived_snapshot_def)
next
  case (Cons p ps)
  then obtain s d where "derived_entry ms p = Inr s" "derived_snapshot ms ps = Inr d"
    using derived_entry_ok [OF assms(1), of p] by auto
  then show ?case by (simp add: derived_snapshot_def)
qed

lemma derived_snapshot_modest: "modest ps ms \<Longrightarrow> \<exists>d. derived_snapshot ms ps = Inr d"
  unfolding modest_def using derived_snapshot_ok [of ms ps] by blast

text \<open>
  Claim C10: \<open>update_positions_from_api\<close> and \<open>save_positions\<close> run the same loop, and for
  every positions list \<open>ps\<close> and market summary \<open>ms\<close> the document written by
  \<open>update_positions_from_api(ps, ms)\<close> is the one \<open>save_positions\<close> writes for a payload
  whose Positions is \<open>ps\<close> and whose Market_Summary is \<open>ms\<close>.
\<close>

theorem update_positions_from_api_is_save_positions:
  "update_positions_loop = save_positions_loop
   \<and> update_positions_from_api ps ms fs
       = save_positions \<lparr>Positions = ps, Market_Summary = ms, market_history = history, DAY = day\<rparr> fs"
proof -
  have loops: "update_positions_loop = save_positions_loop"
    by (intro ext) (rule loops_equal)
  then show ?thesis
    by (simp add: update_positions_from_api_def save_positions_def)
qed

section \<open>The trading history\<close>

lemma log_loop_spec:
  "log_loop pl d recs (JList old) = Inr (JList (old @ map (transaction pl d) recs))"
  by (induction recs arbitrary: old) simp_all

lemma has_quantity_transaction: "has_quantity (transaction pl d r) = (0 < r_quantity r)"
  by (simp add: transaction_def Let_def)

lemma log_spec:
  "read_history fs = JList old \<Longrightarrow>
   log_ai_recommendations recs d ms fs
     = Inr (fs\<lparr>history_file := Doc (JList (old @ map (transaction (price_dict ms) d) recs))\<rparr>)"
  by (simp add: log_ai_recommendations_def read_history_def log_loop_spec
      split: file_content.splits)

lemma log_ticks_spec:
  "read_history fs = JList old \<Longrightarrow>
   \<exists>fs' new. log_ticks ticks fs = Inr fs' \<and> read_history fs' = JList (old @ new)
      \<and> length new = sum_list (map (\<lambda>t. length (fst t)) ticks)"
proof (induction ticks arbitrary: fs old)
  case Nil
  then show ?case by simp
next
  case (Cons t ticks)
  obtain recs d ms where t: "t = (recs, d, ms)" by (cases t)
  let ?new = "map (transaction (price_dict ms) d) recs"
  let ?fs1 = "fs\<lparr>history_file := Doc (JList (old @ ?new))\<rparr>"
  have step: "log_ai_recommendations recs d ms fs = Inr ?fs1"
    using Cons.prems by (rule log_spec)
  have "read_history ?fs1 = JList (old @ ?new)"
    by (simp add: read_history_def)
  from Cons.IH [OF this] obtain fs' new where
    "log_ticks ticks ?fs1 = Inr fs'" "read_history fs' = JList ((old @ ?new) @ new)"
    "length new = sum_list (map (\<lambda>t. length (fst t)) ticks)"
    by blast
  then show ?case
    using step t by (intro exI [of _ fs'] exI [of _ "?new @ new"]) simp
qed

text \<open>
  Claim C8: when the history reads as a list (the file holds a list, or is missing or
  undecodable and reads as the empty list), logging \<open>k\<close> recommendations writes that list
  followed by exactly \<open>k\<close> new entries, the entry of a recommendation carrying a \<open>quantity\<close>
  field exactly when the recommended quantity is greater than zero; and after a sequence
  of ticks logging \<open>k_1, ..., k_N\<close> recommendations the history has grown by the sum of the
  \<open>k_i\<close>.
\<close>

theorem logging_appends_one_entry_per_recommendation:
  assumes "read_history fs = JList old"
  shows "(\<exists>new. log_ai_recommendations recs d ms fs
                   = Inr (fs\<lparr>history_file := Doc (JList (old @ new))\<rparr>)
               \<and> length new = length recs
               \<and> list_all2 (\<lambda>r entry. has_quantity entry = (0 < r_quantity r)) recs new)
         \<and> (\<exists>fs' h. log_ticks ticks fs = Inr fs' \<and> read_history fs' = JList h
               \<and> length h = length old + sum_list (map (\<lambda>t. length (fst t)) ticks))"
proof -
  let ?new = "map (transaction (price_dict ms) d) recs"
  have "log_ai_recommendations recs d ms fs = Inr (fs\<lparr>history_file := Doc (JList (old @ ?new))\<rparr>)"
    using assms by (rule log_spec)
  moreover have "list_all2 (\<lambda>r entry. has_quantity entry = (0 < r_quantity r)) recs ?new"
    by (simp add: list_all2_map2 has_quantity_transaction list_all2_same)
  ultimately have one: "\<exists>new. log_ai_recommendations recs d ms fs
                   = Inr (fs\<lparr>history_file := Doc (JList (old @ new))\<rparr>)
               \<and> length new = length recs
               \<and> list_all2 (\<lambda>r entry. has_quantity entry = (0 < r_quantity r)) recs new"
    by (intro exI [of _ ?new]) simp
  obtain fs' new where "log_ticks ticks fs = Inr fs'" "read_history fs' = JList (old @ new)"
      "length new = sum_list (map (\<lambda>t. length (fst t)) ticks)"
    using log_ticks_spec [OF assms] by blast
  then have "\<exists>fs' h. log_ticks ticks fs = Inr fs' \<and> read_history fs' = JList h
               \<and> length h = length old + sum_list (map (\<lambda>t. length (fst t)) ticks)"
    by (intro exI [of _ fs'] exI [of _ "old @ new"]) simp
  with one show ?thesis by blast
qed

theorem logging_appends_one_entry_per_recommendation_witness:
  "read_history empty_files = JList []
   \<and> log_ai_recommendations two_recommendations ''2025-01-01'' (Market_Summary aapl_cash) empty_files
     = Inr \<lparr>positions_file = Missing,
            history_file =
              Doc (JList
                [JObj [(''date'', JStr ''2025-01-01''), (''ticker'', JStr ''AAPL''),
                       (''action'', JStr ''STAY''), (''price'', JFloat (Fin (365 / 2))),
                       (''note'', JStr ''AI recommendation: STAY 0 shares'')],
                 JObj [(''date'', JStr ''2025-01-01''), (''ticker'', JStr ''MSFT''),
                       (''action'', JStr ''BUY''), (''price'', JFloat (Fin 0)),
                       (''note'', JStr ''AI recommendation: BUY 3 shares''),
                       (''quantity'', JInt 3)]])\<rparr>
   \<and> (case log_ticks
              [(two_recommendations, ''2025-01-01'', Market_Summary aapl_cash),
               ([], ''2025-01-02'', Market_Summary aapl_cash),
               (two_recommendations, ''2025-01-03'', Market_Summary aapl_cash)] empty_files of
         Inr fs' \<Rightarrow> (case read_history fs' of JList h \<Rightarrow> length h = 4 | _ \<Rightarrow> False)
       | Inl e \<Rightarrow> False)"
proof -
  let ?ticks = "[(two_recommendations, ''2025-01-01'', Market_Summary aapl_cash),
                 ([], ''2025-01-02'', Market_Summary aapl_cash),
                 (two_recommendations, ''2025-01-03'', Market_Summary aapl_cash)]"
  have readable: "read_history empty_files = JList []"
    by (simp add: read_history_def empty_files_def)
  have logged: "log_ai_recommendations two_recommendations ''2025-01-01'' (Market_Summary aapl_cash)
                  empty_files
     = Inr \<lparr>positions_file = Missing,
            history_file =
              Doc (JList
                [JObj [(''date'', JStr ''2025-01-01''), (''ticker'', JStr ''AAPL''),
                       (''action'', JStr ''STAY''), (''price'', JFloat (Fin (365 / 2))),
                       (''note'', JStr ''AI recommendation: STAY 0 shares'')],
                 JObj [(''date'', JStr ''2025-01-01''), (''ticker'', JStr ''MSFT''),
                       (''action'', JStr ''BUY''), (''price'', JFloat (Fin 0)),
                       (''note'', JStr ''AI recommendation: BUY 3 shares''),
                       (''quantity'', JInt 3)]])\<rparr>"
    by code_simp
  obtain fs' h where "log_ticks ?ticks empty_files = Inr fs'" "read_history fs' = JList h"
      "length h = length ([] :: json list) + sum_list (map (\<lambda>t. length (fst t)) ?ticks)"
    using logging_appends_one_entry_per_recommendation [OF readable, where ticks = ?ticks]
    by blast
  then have "case log_ticks ?ticks empty_files of
         Inr fs' \<Rightarrow> (case read_history fs' of JList h \<Rightarrow> length h = 4 | _ \<Rightarrow> False)
       | Inl e \<Rightarrow> False"
    by (simp add: two_recommendations_def)
  then show ?thesis
    using readable logged by simp
qed

section \<open>The tick: forwarding and the snapshot that is persisted\<close>

lemma trades_identity:
  "map (\<lambda>r. \<lparr>r_action = r_action r, r_ticker = r_ticker r, r_quantity = r_quantity r\<rparr>) recs = recs"
  by (induction recs) simp_all

lemma make_trade_empty_body:
  assumes "service w trade_id recs = Response 200 (Body b)" and "b = None \<or> b = Some []"
  shows "make_trade (api_key w) (service w) trade_id recs = None
         \<or> make_trade (api_key w) (service w) trade_id recs = Some []"
  using assms by (auto simp: make_trade_def trades_identity)

lemma make_trade_no_service: "make_trade k no_service trade_id recs = None"
  by (simp add: make_trade_def no_service_def)

lemma persist_tick_no_positions:
  assumes "make_trade (api_key w) (service w) trade_id recs = None
           \<or> make_trade (api_key w) (service w) trade_id recs = Some []"
    and "persist_tick w payload trade_id recs fs = (Inr u, fs')"
  shows "\<exists>d. derived_snapshot (Market_Summary payload) (Positions payload) = Inr d
             \<and> positions_file fs' = Doc d"
proof (cases "derived_snapshot (Market_Summary payload) (Positions payload)")
  case (Inl e)
  then show ?thesis
    using assms
    by (auto simp: persist_tick_def save_positions_spec Let_def split: if_splits sum.splits)
next
  case (Inr d)
  then show ?thesis
    using assms
    by (auto simp: persist_tick_def save_positions_spec log_ai_recommendations_def Let_def
        split: if_splits sum.splits)
qed

lemma persist_tick_falsy:
  assumes "make_trade (api_key w) (service w) trade_id recs = None
           \<or> make_trade (api_key w) (service w) trade_id recs = Some []"
  shows "persist_tick w payload trade_id recs fs
           = persist_tick (w\<lparr>service := no_service\<rparr>) payload trade_id recs fs"
  using assms
  by (cases "DAY payload")
     (auto simp: persist_tick_def make_trade_no_service Let_def split: sum.splits)

lemma tick_recommendations_service [simp]:
  "tick_recommendations (w\<lparr>service := s\<rparr>) payload = tick_recommendations w payload"
  by (simp add: tick_recommendations_def)

lemma analyze_tick_Inr:
  "analyze_tick w payload trade_id fs = (Inr result, fs') \<Longrightarrow>
     persist_tick w payload trade_id (tick_recommendations w payload) fs = (Inr (), fs')"
  by (auto simp: analyze_tick_def split: sum.splits prod.splits)

lemma tick_returns:
  assumes "modest (Positions payload) (Market_Summary payload)"
    and "read_history fs = JList old"
    and "make_trade (api_key w) (service w) trade_id (tick_recommendations w payload) = None
         \<or> make_trade (api_key w) (service w) trade_id (tick_recommendations w payload) = Some []"
  shows "\<exists>result fs'. analyze_tick w payload trade_id fs = (Inr result, fs')"
proof -
  have m: "list_all (\<lambda>m. int_below 500 (m_current_price m)) (Market_Summary payload)"
    and p: "list_all (\<lambda>p. int_below 500 (p_quantity p) \<and> int_below 500 (p_purchase_price p))
              (Positions payload)"
    using assms(1) by (simp_all add: modest_def)
  obtain r where r: "accounting (Positions payload) (Market_Summary payload) = Inr r"
    using accounting_ok [OF m p] by blast
  obtain d where d: "derived_snapshot (Market_Summary payload) (Positions payload) = Inr d"
    using derived_snapshot_ok [OF m p] by blast
  have saved: "save_positions payload fs0 = Inr (fs0\<lparr>positions_file := Doc d\<rparr>)" for fs0
    using d by (simp add: save_positions_spec)
  obtain fs1 where logged:
    "log_ai_recommendations (tick_recommendations w payload)
       (case DAY payload of Some d \<Rightarrow> d | None \<Rightarrow> today w) (Market_Summary payload) fs = Inr fs1"
    using log_spec [OF assms(2)] by blast
  have "\<exists>fs'. persist_tick w payload trade_id (tick_recommendations w payload) fs = (Inr (), fs')"
    using assms(3) logged saved by (auto simp: persist_tick_def Let_def)
  then show ?thesis
    using r by (cases r) (auto simp: analyze_tick_def)
qed

text \<open>
  Claim C7: for every tick in which the trade-execution call fails (\<open>make_trade\<close> returns
  \<open>None\<close>: no API key, an exception of the request, a status other than 200, a body that
  cannot be decoded) and which returns, the positions file afterwards holds the snapshot
  recomputed from the inbound payload's Positions and Market_Summary, whatever it held
  before: one entry per position, with the current price of the matching market-summary
  entry, or the purchase price when no entry matches. And such a tick does return when
  the payload is modest and the history reads as a list.
\<close>

theorem forwarding_failure_persists_payload_snapshot:
  assumes "make_trade (api_key w) (service w) trade_id (tick_recommendations w payload) = None"
  shows "(analyze_tick w payload trade_id fs = (Inr result, fs') \<longrightarrow>
            (\<exists>d. derived_snapshot (Market_Summary payload) (Positions payload) = Inr d
                 \<and> positions_file fs' = Doc d
                 \<and> map s_ticker d = map p_ticker (Positions payload)
                 \<and> map s_current_price d
                     = map (derived_price (Market_Summary payload)) (Positions payload)))
         \<and> (modest (Positions payload) (Market_Summary payload) \<and> read_history fs = JList old \<longrightarrow>
            (\<exists>r fs1. analyze_tick w payload trade_id fs = (Inr r, fs1)))"
proof -
  have snapshot: "\<exists>d. derived_snapshot (Market_Summary payload) (Positions payload) = Inr d
                 \<and> positions_file fs' = Doc d
                 \<and> map s_ticker d = map p_ticker (Positions payload)
                 \<and> map s_current_price d
                     = map (derived_price (Market_Summary payload)) (Positions payload)"
    if returns: "analyze_tick w payload trade_id fs = (Inr result, fs')"
  proof -
    have "persist_tick w payload trade_id (tick_recommendations w payload) fs = (Inr (), fs')"
      using returns by (rule analyze_tick_Inr)
    with assms obtain d where
      d: "derived_snapshot (Market_Summary payload) (Positions payload) = Inr d"
         "positions_file fs' = Doc d"
      using persist_tick_no_positions by blast
    then show ?thesis
      using derived_snapshot_fields [OF d(1)] by blast
  qed
  have total: "\<exists>r fs1. analyze_tick w payload trade_id fs = (Inr r, fs1)"
    if "modest (Positions payload) (Market_Summary payload)" "read_history fs = JList old"
    using tick_returns [OF that] assms by blast
  show ?thesis
    using snapshot total by blast
qed

theorem forwarding_failure_persists_payload_snapshot_witness:
  "tick_recommendations (world_of (Inl ApiError)) aapl_cash
     = [\<lparr>r_action = ''STAY'', r_ticker = ''AAPL'', r_quantity = 0\<rparr>]
   \<and> make_trade (api_key (world_of (Inl ApiError))) (service (world_of (Inl ApiError))) ''t1''
        (tick_recommendations (world_of (Inl ApiError)) aapl_cash) = None
   \<and> positions_file (snd (analyze_tick (world_of (Inl ApiError)) aapl_cash ''t1'' stale_files))
     = Doc aapl_snapshot
   \<and> derived_snapshot (Market_Summary aapl_cash) (Positions aapl_cash) = Inr aapl_snapshot
   \<and> modest (Positions aapl_cash) (Market_Summary aapl_cash)
   \<and> read_history stale_files = JList []"
proof -
  let ?w = "world_of (Inl ApiError)"
  let ?result = "\<lparr>t_result = ''success'', t_positions_evaluated = 1,
                  t_unrealized_pnl = PFloat (Fin 25), t_decisions = []\<rparr>"
  let ?after = "snd (analyze_tick ?w aapl_cash ''t1'' stale_files)"
  have recs: "tick_recommendations ?w aapl_cash
                = [\<lparr>r_action = ''STAY'', r_ticker = ''AAPL'', r_quantity = 0\<rparr>]"
    by code_simp
  have fails: "make_trade (api_key ?w) (service ?w) ''t1'' (tick_recommendations ?w aapl_cash) = None"
    by code_simp
  have "fst (analyze_tick ?w aapl_cash ''t1'' stale_files) = Inr ?result"
    by code_simp
  then have returns: "analyze_tick ?w aapl_cash ''t1'' stale_files = (Inr ?result, ?after)"
    by (simp add: prod_eq_iff)
  have snap: "derived_snapshot (Market_Summary aapl_cash) (Positions aapl_cash) = Inr aapl_snapshot"
    by code_simp
  show ?thesis
    using forwarding_failure_persists_payload_snapshot
            [OF fails, where fs = stale_files and result = ?result and fs' = ?after]
          returns recs fails snap aapl_cash_modest stale_files_readable
    by auto
qed

text \<open>
  Claim C9: when the trade-execution service answers with status 200 and its body has an
  empty Positions list, or no Positions key, the tick is the tick of a forwarding
  failure: the same result and the same files as when the request fails. A tick that
  returns has persisted the snapshot derived from the inbound payload, one entry per
  position of the payload, not an empty list; and the tick does return when the payload
  is modest and the history reads as a list.
\<close>

theorem empty_service_positions_fall_back_to_payload:
  assumes "service w trade_id (tick_recommendations w payload) = Response 200 (Body b)"
    and "b = None \<or> b = Some []"
  shows "analyze_tick w payload trade_id fs
           = analyze_tick (w\<lparr>service := no_service\<rparr>) payload trade_id fs
         \<and> (analyze_tick w payload trade_id fs = (Inr result, fs') \<longrightarrow>
              (\<exists>d. derived_snapshot (Market_Summary payload) (Positions payload) = Inr d
                   \<and> positions_file fs' = Doc d
                   \<and> length d = length (Positions payload)))
         \<and> (modest (Positions payload) (Market_Summary payload) \<and> read_history fs = JList old \<longrightarrow>
              (\<exists>r fs1. analyze_tick w payload trade_id fs = (Inr r, fs1)))"
proof -
  let ?recs = "tick_recommendations w payload"
  have falsy: "make_trade (api_key w) (service w) trade_id ?recs = None
               \<or> make_trade (api_key w) (service w) trade_id ?recs = Some []"
    using assms by (rule make_trade_empty_body)
  have same: "analyze_tick w payload trade_id fs
                = analyze_tick (w\<lparr>service := no_service\<rparr>) payload trade_id fs"
    using persist_tick_falsy [OF falsy, of payload fs]
    by (cases "accounting (Positions payload) (Market_Summary payload)")
       (auto simp: analyze_tick_def)
  have snap: "\<exists>d. derived_snapshot (Market_Summary payload) (Positions payload) = Inr d
                   \<and> positions_file fs' = Doc d
                   \<and> length d = length (Positions payload)"
    if returns: "analyze_tick w payload trade_id fs = (Inr result, fs')"
  proof -
    obtain d where d: "derived_snapshot (Market_Summary payload) (Positions payload) = Inr d"
        "positions_file fs' = Doc d"
      using persist_tick_no_positions [OF falsy analyze_tick_Inr [OF returns]] by blast
    have "length (map s_ticker d) = length (map p_ticker (Positions payload))"
      using derived_snapshot_fields [OF d(1)] by simp
    then show ?thesis
      using d by auto
  qed
  have total: "\<exists>r fs1. analyze_tick w payload trade_id fs = (Inr r, fs1)"
    if "modest (Positions payload) (Market_Summary payload)" "read_history fs = JList old"
    using tick_returns [OF that] falsy by blast
  show ?thesis
    using same snap total by blast
qed

theorem empty_service_positions_fall_back_to_payload_witness:
  "service ((world_of (Inl ApiError))\<lparr>service := empty_service\<rparr>) ''t1''
       (tick_recommendations ((world_of (Inl ApiError))\<lparr>service := empty_service\<rparr>) aapl_cash)
     = Response 200 (Body None)
   \<and> analyze_tick ((world_of (Inl ApiError))\<lparr>service := empty_service\<rparr>) aapl_cash ''t1'' stale_files
     = analyze_tick (world_of (Inl ApiError)) aapl_cash ''t1'' stale_files
   \<and> positions_file
        (snd (analyze_tick ((world_of (Inl ApiError))\<lparr>service := empty_service\<rparr>) aapl_cash ''t1''
               stale_files))
     = Doc aapl_snapshot
   \<and> modest (Positions aapl_cash) (Market_Summary aapl_cash)
   \<and> read_history stale_files = JList []"
proof -
  let ?w = "(world_of (Inl ApiError))\<lparr>service := empty_service\<rparr>"
  have answer: "service ?w ''t1'' (tick_recommendations ?w aapl_cash) = Response 200 (Body None)"
    by (simp add: empty_service_def)
  have failing: "?w\<lparr>service := no_service\<rparr> = world_of (Inl ApiError)"
    by (simp add: world_of_def)
  have "positions_file (snd (analyze_tick (world_of (Inl ApiError)) aapl_cash ''t1'' stale_files))
          = Doc aapl_snapshot"
    by code_simp
  then show ?thesis
    using empty_service_positions_fall_back_to_payload
            [where w = ?w and b = None and fs = stale_files, OF answer] answer failing
          aapl_cash_modest stale_files_readable
    by simp
qed

section \<open>The tick: fallback recommendations\<close>

lemma fallback_loop_eq: "fallback_loop ps recs = recs @ fallback_set ps"
  by (induction ps arbitrary: recs) (simp_all add: fallback_set_def stay_def)

lemma persist_tick_empty:
  "persist_tick w payload trade_id [] fs
     = (case derived_snapshot (Market_Summary payload) (Positions payload) of
          Inl e \<Rightarrow> (Inl e, fs)
        | Inr d \<Rightarrow> (Inr (), fs\<lparr>positions_file := Doc d\<rparr>))"
  by (cases "derived_snapshot (Market_Summary payload) (Positions payload)")
     (simp_all add: persist_tick_def save_positions_spec)

lemma analyze_tick_empty:
  assumes "tick_recommendations w payload = []"
  shows "history_file (snd (analyze_tick w payload trade_id fs)) = history_file fs"
    and "analyze_tick (w\<lparr>service := other\<rparr>) payload trade_id fs = analyze_tick w payload trade_id fs"
    and "analyze_tick w payload trade_id fs = (Inr result, fs') \<Longrightarrow>
           \<exists>d. derived_snapshot (Market_Summary payload) (Positions payload) = Inr d
               \<and> fs' = fs\<lparr>positions_file := Doc d\<rparr>"
proof -
  show "history_file (snd (analyze_tick w payload trade_id fs)) = history_file fs"
    using assms
    by (cases "accounting (Positions payload) (Market_Summary payload)";
        cases "derived_snapshot (Market_Summary payload) (Positions payload)")
       (auto simp: analyze_tick_def persist_tick_empty)
  show "analyze_tick (w\<lparr>service := other\<rparr>) payload trade_id fs = analyze_tick w payload trade_id fs"
    using assms
    by (cases "accounting (Positions payload) (Market_Summary payload)")
       (auto simp: analyze_tick_def persist_tick_empty)
  show "\<exists>d. derived_snapshot (Market_Summary payload) (Positions payload) = Inr d
               \<and> fs' = fs\<lparr>positions_file := Doc d\<rparr>"
    if "analyze_tick w payload trade_id fs = (Inr result, fs')"
    using that assms
    by (cases "accounting (Positions payload) (Market_Summary payload)";
        cases "derived_snapshot (Market_Summary payload) (Positions payload)")
       (auto simp: analyze_tick_def persist_tick_empty)
qed

text \<open>
  Claim C1, as stated, fails for a request that returns an empty recommendation list
  without raising: with positions AAPL and CASH and a response that carries no tool call,
  the requester returns \<open>[]\<close>, the tick's recommendations stay empty although the fallback
  set would be \<open>[STAY AAPL 0]\<close>, and nothing is logged to the history.
\<close>

theorem empty_result_no_fallback_counterexample:
  "evaluate_portfolio plain (Inr quiet_message) = Inr (''hold'', [])
   \<and> tick_recommendations (world_of (Inr quiet_message)) aapl_cash = []
   \<and> fallback_set (Positions aapl_cash)
       = [\<lparr>r_action = ''STAY'', r_ticker = ''AAPL'', r_quantity = 0\<rparr>]
   \<and> history_file (snd (analyze_tick (world_of (Inr quiet_message)) aapl_cash ''t1'' empty_files))
       = Missing"
  by code_simp

text \<open>
  Claim C1, amended: for every tick whose recommendation request raises an exception, the
  orchestrator falls back to a synthetic recommendation set containing exactly one
  \<open>{action: STAY, ticker: T, quantity: 0}\<close> entry per position \<open>T\<close> in the payload's
  Positions whose ticker is not \<open>CASH\<close>, in the order of the positions, and no entry for
  \<open>CASH\<close>. When the request returns without raising, its list is the recommendation set
  of the tick, also when it is empty: there is no fallback then. On an empty list nothing
  is logged (the history file is left as it was), the trade service's answer is not used
  (the tick's result and files are the same whatever the service would answer), and a tick
  that returns has saved the snapshot derived from the payload's positions.
\<close>

theorem fallback_when_request_raises:
  "(evaluate_portfolio (python w) (llm w) = Inl e \<longrightarrow>
      tick_recommendations w payload = fallback_set (Positions payload)
      \<and> ''CASH'' \<notin> r_ticker ` set (tick_recommendations w payload)
      \<and> length (tick_recommendations w payload)
          = length (filter (\<lambda>p. p_ticker p \<noteq> ''CASH'') (Positions payload)))
   \<and> (evaluate_portfolio (python w) (llm w) = Inr (narrative, recs) \<longrightarrow>
      tick_recommendations w payload = recs)
   \<and> (evaluate_portfolio (python w) (llm w) = Inr (narrative, []) \<longrightarrow>
      history_file (snd (analyze_tick w payload trade_id fs)) = history_file fs
      \<and> analyze_tick (w\<lparr>service := other\<rparr>) payload trade_id fs = analyze_tick w payload trade_id fs
      \<and> (analyze_tick w payload trade_id fs = (Inr result, fs') \<longrightarrow>
           (\<exists>d. derived_snapshot (Market_Summary payload) (Positions payload) = Inr d
                \<and> fs' = fs\<lparr>positions_file := Doc d\<rparr>)))"
proof -
  have raises: "evaluate_portfolio (python w) (llm w) = Inl e \<longrightarrow>
      tick_recommendations w payload = fallback_set (Positions payload)
      \<and> ''CASH'' \<notin> r_ticker ` set (tick_recommendations w payload)
      \<and> length (tick_recommendations w payload)
          = length (filter (\<lambda>p. p_ticker p \<noteq> ''CASH'') (Positions payload))"
    by (auto simp: tick_recommendations_def fallback_loop_eq fallback_set_def stay_def)
  have returns: "evaluate_portfolio (python w) (llm w) = Inr (narrative, recs) \<longrightarrow>
      tick_recommendations w payload = recs"
    by (simp add: tick_recommendations_def)
  have empty: "history_file (snd (analyze_tick w payload trade_id fs)) = history_file fs
      \<and> analyze_tick (w\<lparr>service := other\<rparr>) payload trade_id fs = analyze_tick w payload trade_id fs
      \<and> (analyze_tick w payload trade_id fs = (Inr result, fs') \<longrightarrow>
           (\<exists>d. derived_snapshot (Market_Summary payload) (Positions payload) = Inr d
                \<and> fs' = fs\<lparr>positions_file := Doc d\<rparr>))"
    if "evaluate_portfolio (python w) (llm w) = Inr (narrative, [])"
  proof -
    have none: "tick_recommendations w payload = []"
      using that by (simp add: tick_recommendations_def)
    show ?thesis
      using analyze_tick_empty [OF none] by blast
  qed
  show ?thesis
    using raises returns empty by blast
qed

theorem fallback_when_request_raises_witness:
  "evaluate_portfolio (python (world_of (Inl ApiError))) (llm (world_of (Inl ApiError)))
     = Inl ApiError
   \<and> tick_recommendations (world_of (Inl ApiError)) aapl_cash
     = [\<lparr>r_action = ''STAY'', r_ticker = ''AAPL'', r_quantity = 0\<rparr>]
   \<and> evaluate_portfolio (python (world_of (Inr quiet_message))) (llm (world_of (Inr quiet_message)))
     = Inr (''hold'', [])
   \<and> tick_recommendations (world_of (Inr quiet_message)) aapl_cash = []
   \<and> history_file (snd (analyze_tick (world_of (Inr quiet_message)) aapl_cash ''t1'' stale_files))
     = Missing
   \<and> analyze_tick ((world_of (Inr quiet_message))\<lparr>service := empty_service\<rparr>) aapl_cash ''t1''
        stale_files
     = analyze_tick (world_of (Inr quiet_message)) aapl_cash ''t1'' stale_files
   \<and> positions_file (snd (analyze_tick (world_of (Inr quiet_message)) aapl_cash ''t1'' stale_files))
     = Doc aapl_snapshot"
proof -
  let ?w = "world_of (Inl ApiError)"
  let ?q = "world_of (Inr quiet_message)"
  have raises: "evaluate_portfolio (python ?w) (llm ?w) = Inl ApiError"
    by (simp add: world_of_def evaluate_portfolio_def)
  have fb: "fallback_set (Positions aapl_cash)
          = [\<lparr>r_action = ''STAY'', r_ticker = ''AAPL'', r_quantity = 0\<rparr>]"
    by (simp add: fallback_set_def aapl_cash_def stay_def)
  have quiet: "evaluate_portfolio (python ?q) (llm ?q) = Inr (''hold'', [])"
    by code_simp
  have saved: "positions_file (snd (analyze_tick ?q aapl_cash ''t1'' stale_files)) = Doc aapl_snapshot"
    by code_simp
  have old: "history_file stale_files = Missing"
    by (simp add: stale_files_def)
  show ?thesis
    using fallback_when_request_raises [of ?w ApiError aapl_cash]
          fallback_when_request_raises
            [where w = ?q and payload = aapl_cash and narrative = "''hold''" and recs = "[]"
               and trade_id = "''t1''" and fs = stale_files and other = empty_service]
          raises fb quiet saved old
    by simp
qed

section \<open>The payload validator\<close>

lemma check_positions_None: "check_positions i ps = None \<longleftrightarrow> list_all position_accepted ps"
proof (induction ps arbitrary: i)
  case Nil
  then show ?case by simp
next
  case (Cons p ps)
  then show ?case
    by (cases p) (auto simp: has_field_def split: option.splits)
qed

lemma check_market_summary_None:
  "check_market_summary i ps = None \<longleftrightarrow> list_all summary_accepted ps"
proof (induction ps arbitrary: i)
  case Nil
  then show ?case by simp
next
  case (Cons p ps)
  then show ?case
    by (cases p) (auto simp: has_field_def split: option.splits)
qed

lemma check_market_history_None:
  "check_market_history i ps = None \<longleftrightarrow> list_all history_accepted ps"
proof (induction ps arbitrary: i)
  case Nil
  then show ?case by simp
next
  case (Cons p ps)
  then show ?case
    by (cases p) (auto simp: has_field_def split: option.splits)
qed

lemma validate_positions_None:
  "validate_positions payload = None
     \<longleftrightarrow> nonempty_list_of position_accepted (map_of payload ''Positions'')"
  by (auto simp: validate_positions_def nonempty_list_of_def check_positions_None
      split: option.splits json.splits)

lemma validate_market_summary_None:
  "validate_market_summary payload = None
     \<longleftrightarrow> nonempty_list_of summary_accepted (map_of payload ''Market_Summary'')"
  by (auto simp: validate_market_summary_def nonempty_list_of_def check_market_summary_None
      split: option.splits json.splits)

lemma validate_market_history_None:
  "validate_market_history payload = None
     \<longleftrightarrow> nonempty_list_of history_accepted (map_of payload ''market_history'')"
  by (auto simp: validate_market_history_def nonempty_list_of_def check_market_history_None
      split: option.splits json.splits)

lemma validate_day_None:
  "validate_day payload = None
     \<longleftrightarrow> (case map_of payload ''DAY'' of None \<Rightarrow> True | Some day \<Rightarrow> is_str day)"
  by (auto simp: validate_day_def split: option.splits)

text \<open>The validator returns \<open>(True, "")\<close> exactly on the payloads of \<open>accepted\<close>.\<close>

lemma validate_accepts: "validate_tick_payload p = (True, '''') \<longleftrightarrow> accepted p"
  by (cases p)
     (auto simp: validate_positions_None [symmetric] validate_market_summary_None [symmetric]
        validate_market_history_None [symmetric] validate_day_None [symmetric]
        split: option.splits)

lemma json_string_is_str: "json_string j \<Longrightarrow> is_str j"
  by (cases j) simp_all

lemma json_number_is_number: "json_number j \<Longrightarrow> is_int_or_float j"
  by (cases j) simp_all

lemma json_integer_or_string_is: "json_integer_or_string j \<Longrightarrow> is_int_or_str j"
  by (cases j) simp_all

lemma has_field_mono: "has_field obj k ok \<Longrightarrow> (\<And>v. ok v \<Longrightarrow> ok' v) \<Longrightarrow> has_field obj k ok'"
  by (auto simp: has_field_def split: option.splits)

lemma position_rule_accepted: "position_rule j \<Longrightarrow> position_accepted j"
  by (cases j) (auto intro: has_field_mono json_string_is_str json_number_is_number)

lemma summary_rule_accepted: "summary_rule j \<Longrightarrow> summary_accepted j"
  by (cases j) (auto intro: has_field_mono json_string_is_str json_number_is_number)

lemma history_rule_accepted: "history_rule j \<Longrightarrow> history_accepted j"
  by (cases j)
     (auto intro: has_field_mono json_string_is_str json_number_is_number json_integer_or_string_is)

lemma nonempty_list_of_mono:
  "nonempty_list_of elem v \<Longrightarrow> (\<And>j. elem j \<Longrightarrow> elem' j) \<Longrightarrow> nonempty_list_of elem' v"
  by (auto simp: nonempty_list_of_def list_all_iff split: option.splits json.splits)

lemma documented_valid_accepted: "documented_valid p \<Longrightarrow> accepted p"
  by (cases p)
     (auto intro: nonempty_list_of_mono position_rule_accepted summary_rule_accepted
        history_rule_accepted json_string_is_str split: option.splits)

text \<open>Every payload that satisfies the documented rules is accepted with an empty message.\<close>

lemma validate_accepts_documented:
  "documented_valid p \<Longrightarrow> validate_tick_payload p = (True, '''')"
  by (simp add: validate_accepts documented_valid_accepted)

lemma check_positions_message: "check_positions i ps = Some m \<Longrightarrow> m \<noteq> []"
  by (induction i ps rule: check_positions.induct) (auto split: option.splits if_splits)

lemma check_market_summary_message: "check_market_summary i ps = Some m \<Longrightarrow> m \<noteq> []"
  by (induction i ps rule: check_market_summary.induct) (auto split: option.splits if_splits)

lemma check_market_history_message: "check_market_history i ps = Some m \<Longrightarrow> m \<noteq> []"
  by (induction i ps rule: check_market_history.induct) (auto split: option.splits if_splits)

text \<open>A rejection always carries a message, and an acceptance none.\<close>

lemma validate_message: "validate_tick_payload p = (ok, m) \<Longrightarrow> ok = (m = [])"
  by (cases p)
     (auto simp: validate_positions_def validate_market_summary_def validate_market_history_def
        validate_day_def
        dest: check_positions_message check_market_summary_message check_market_history_message
        split: option.splits json.splits if_splits)

text \<open>
  The sections are examined in the documented order, and the first failing section
  decides: what the later keys of the payload hold is not examined.
\<close>

lemma validate_stops_at_positions:
  "validate_positions payload = Some m \<Longrightarrow>
   map_of payload' ''Positions'' = map_of payload ''Positions'' \<Longrightarrow>
   validate_tick_payload (JObj payload') = (False, m)"
  by (simp add: validate_positions_def)

lemma validate_stops_at_market_summary:
  "validate_positions payload = None \<Longrightarrow> validate_market_summary payload = Some m \<Longrightarrow>
   map_of payload' ''Positions'' = map_of payload ''Positions'' \<Longrightarrow>
   map_of payload' ''Market_Summary'' = map_of payload ''Market_Summary'' \<Longrightarrow>
   validate_tick_payload (JObj payload') = (False, m)"
  by (simp add: validate_positions_def validate_market_summary_def)

lemma validate_stops_at_market_history:
  "validate_positions payload = None \<Longrightarrow> validate_market_summary payload = None \<Longrightarrow>
   validate_market_history payload = Some m \<Longrightarrow>
   map_of payload' ''Positions'' = map_of payload ''Positions'' \<Longrightarrow>
   map_of payload' ''Market_Summary'' = map_of payload ''Market_Summary'' \<Longrightarrow>
   map_of payload' ''market_history'' = map_of payload ''market_history'' \<Longrightarrow>
   validate_tick_payload (JObj payload') = (False, m)"
  by (simp add: validate_positions_def validate_market_summary_def validate_market_history_def)

text \<open>
  Every document the validator accepts is a payload of the record that \<open>analyze_tick\<close> is
  modelled on, with positions and a market summary that are not empty.
\<close>

lemma is_str_str_of: "is_str j \<Longrightarrow> \<exists>s. str_of j = Some s"
  by (cases j) simp_all

lemma is_number_num_of: "is_int_or_float j \<Longrightarrow> \<exists>n. num_of j = Some n"
  by (cases j) simp_all

lemma has_field_str: "has_field obj k is_str \<Longrightarrow> \<exists>s. field obj k str_of = Some s"
  by (auto simp: has_field_def field_def split: option.splits dest: is_str_str_of)

lemma has_field_num: "has_field obj k is_int_or_float \<Longrightarrow> \<exists>n. field obj k num_of = Some n"
  by (auto simp: has_field_def field_def split: option.splits dest: is_number_num_of)

lemma position_accepted_decodes: "position_accepted j \<Longrightarrow> \<exists>p. decode_position j = Some p"
proof (cases j)
  case (JObj obj)
  assume "position_accepted j"
  then obtain t q c where "field obj ''ticker'' str_of = Some t"
      "field obj ''quantity'' num_of = Some q" "field obj ''purchase_price'' num_of = Some c"
    using JObj has_field_str has_field_num by (metis position_accepted.simps(1))
  then show ?thesis using JObj by simp
qed auto

lemma summary_accepted_decodes: "summary_accepted j \<Longrightarrow> \<exists>m. decode_summary j = Some m"
proof (cases j)
  case (JObj obj)
  assume "summary_accepted j"
  then obtain t c g where "field obj ''ticker'' str_of = Some t"
      "field obj ''current_price'' num_of = Some c" "field obj ''category'' str_of = Some g"
    using JObj has_field_str has_field_num by (metis summary_accepted.simps(1))
  then show ?thesis using JObj by simp
qed auto

lemma decode_list_all:
  "list_all ok js \<Longrightarrow> (\<And>j. ok j \<Longrightarrow> \<exists>x. decode j = Some x) \<Longrightarrow>
   \<exists>xs. decode_list decode js = Some xs \<and> length xs = length js"
proof (induction js)
  case Nil
  then show ?case by simp
next
  case (Cons j js)
  have "ok j" "list_all ok js"
    using Cons.prems(1) by simp_all
  then obtain x xs where "decode j = Some x" "decode_list decode js = Some xs" "length xs = length js"
    using Cons.IH Cons.prems(2) by blast
  then show ?case by simp
qed

lemma accepted_decodes:
  assumes "accepted p"
  shows "\<exists>payload. decode_payload p = Some payload \<and> Positions payload \<noteq> []
           \<and> Market_Summary payload \<noteq> []"
proof (cases p)
  case (JObj obj)
  from assms JObj obtain ps ms mh where
    f: "map_of obj ''Positions'' = Some (JList ps)" "map_of obj ''Market_Summary'' = Some (JList ms)"
       "map_of obj ''market_history'' = Some (JList mh)"
    and ok: "ps \<noteq> []" "list_all position_accepted ps" "ms \<noteq> []" "list_all summary_accepted ms"
    by (auto simp: nonempty_list_of_def split: option.splits json.splits)
  obtain positions where positions: "decode_list decode_position ps = Some positions"
      "length positions = length ps"
    using decode_list_all [OF ok(2)] position_accepted_decodes by blast
  obtain summary where summary: "decode_list decode_summary ms = Some summary"
      "length summary = length ms"
    using decode_list_all [OF ok(4)] summary_accepted_decodes by blast
  show ?thesis
    using JObj f positions summary ok(1,3) by auto
qed (use assms in auto)

lemma validated_decodes:
  "validate_tick_payload p = (True, '''') \<Longrightarrow>
   \<exists>payload. decode_payload p = Some payload \<and> Positions payload \<noteq> [] \<and> Market_Summary payload \<noteq> []"
  by (simp add: validate_accepts accepted_decodes)

text \<open>
  Claim C2 does not hold of the code. The payload whose only position has the quantity
  \<open>true\<close> violates the documented rule that \<open>quantity\<close> is numeric, and the validator's own
  message for that field says it "must be a number"; but \<open>isinstance(True, (int, float))\<close>
  is true in Python, so the validator returns \<open>(True, "")\<close>.
\<close>

theorem boolean_quantity_accepted:
  "validate_tick_payload boolean_quantity_payload = (True, '''')
   \<and> \<not> documented_valid boolean_quantity_payload"
  by code_simp

end
